theory Spec2Isabelle
  imports Main "HOL-Library.Word"
begin

section \<open>Data model (api/v1/abnormal_types.go)\<close>

text \<open>
  Go structs are records, Go string types (phase, condition type, condition status,
  processor type) are strings with the declared constants as abbreviations, a pointer
  field is an option, a slice is a list, \<open>[]byte\<close> is a list of 8-bit words and
  \<open>metav1.Time\<close> is an integer time stamp.  Field names are the source's; where two
  structs share a field name, one of them carries a prefix.  The nested endpoint structs
  of a profiler status are flattened into its \<open>GoEndpoint\<close> and \<open>JavaEndpoint\<close>
  (type, Arthas endpoint, memory analyzer endpoint).
\<close>

type_synonym byte = "8 word"
type_synonym Time = int

type_synonym AbnormalPhase = string
type_synonym AbnormalProcessorType = string
type_synonym AbnormalConditionType = string
type_synonym ConditionStatus = string

abbreviation InformationCollecting :: AbnormalPhase where
  "InformationCollecting \<equiv> ''InformationCollecting''"
abbreviation AbnormalDiagnosing :: AbnormalPhase where
  "AbnormalDiagnosing \<equiv> ''Diagnosing''"
abbreviation AbnormalRecovering :: AbnormalPhase where
  "AbnormalRecovering \<equiv> ''Recovering''"
abbreviation AbnormalSucceeded :: AbnormalPhase where
  "AbnormalSucceeded \<equiv> ''Succeeded''"
abbreviation AbnormalFailed :: AbnormalPhase where
  "AbnormalFailed \<equiv> ''Failed''"
abbreviation AbnormalUnknown :: AbnormalPhase where
  "AbnormalUnknown \<equiv> ''Unknown''"

abbreviation InformationCollectorType :: AbnormalProcessorType where
  "InformationCollectorType \<equiv> ''InformationCollector''"
abbreviation DiagnoserType :: AbnormalProcessorType where
  "DiagnoserType \<equiv> ''Diagnoser''"
abbreviation RecovererType :: AbnormalProcessorType where
  "RecovererType \<equiv> ''Recoverer''"

abbreviation InformationCollected :: AbnormalConditionType where
  "InformationCollected \<equiv> ''InformationCollected''"
abbreviation AbnormalIdentified :: AbnormalConditionType where
  "AbnormalIdentified \<equiv> ''Identified''"
abbreviation AbnormalRecovered :: AbnormalConditionType where
  "AbnormalRecovered \<equiv> ''Recovered''"

abbreviation ConditionTrue :: ConditionStatus where
  "ConditionTrue \<equiv> ''True''"
abbreviation ConditionFalse :: ConditionStatus where
  "ConditionFalse \<equiv> ''False''"
abbreviation ConditionUnknown :: ConditionStatus where
  "ConditionUnknown \<equiv> ''Unknown''"

text \<open>A Go \<open>error\<close>: its message, and whether \<open>apierrors.IsNotFound\<close> holds of it.\<close>

datatype error = Error string | NotFoundError string

fun IsNotFound :: "error \<Rightarrow> bool" where
  "IsNotFound (NotFoundError m) = True"
| "IsNotFound (Error m) = False"

text \<open>\<open>corev1.Event\<close> belongs to Kubernetes; the engine never looks inside one.\<close>

typedecl KubernetesEventObject

record NamespacedName =
  Namespace :: string
  Name :: string

record PodReference =
  PodNamespace :: string
  PodName :: string
  ContainerName :: string

record PrometheusAlert =
  Labels :: "(string \<times> string) list"
  Annotations :: "(string \<times> string) list"
  StartsAt :: Time
  EndsAt :: Time
  GeneratorURL :: string

record RawExtension =
  Raw :: "byte list"

record CommandExecutorSpec =
  SpecCommand :: "string list"
  SpecType :: AbnormalProcessorType
  SpecTimeoutSeconds :: "32 word"

record GoProfilerSpec =
  GoSource :: string

record JavaProfilerSpec =
  JavaSpecType :: string
  HPROFFilePath :: string

record ProfilerSpec =
  ProfilerSpecName :: string
  ProfilerSpecType :: AbnormalProcessorType
  ProfilerSpecGo :: "GoProfilerSpec option"
  ProfilerSpecJava :: "JavaProfilerSpec option"
  ProfilerTimeoutSeconds :: "32 word"
  ExpirationSeconds :: "32 word"

text \<open>
  \<open>SkipRecovery\<close> is read by the engine revision of \<open>unnamed/part_000\<close> only; the
  struct of \<open>abnormal_types.go\<close> does not declare it and \<open>runRecovery\<close> never reads it.
\<close>

record AbnormalSpec =
  Source :: string
  SpecPrometheusAlert :: "PrometheusAlert option"
  SpecKubernetesEvent :: "KubernetesEventObject option"
  NodeName :: string
  SpecPodReference :: "PodReference option"
  AssignedInformationCollectors :: "NamespacedName list"
  AssignedDiagnosers :: "NamespacedName list"
  AssignedRecoverers :: "NamespacedName list"
  SpecCommandExecutors :: "CommandExecutorSpec list"
  SpecProfilers :: "ProfilerSpec list"
  SpecContext :: "RawExtension option"
  SkipRecovery :: bool

record CommandExecutorStatus =
  Command :: "string list"
  ExecutorType :: AbnormalProcessorType
  Stdout :: string
  Stderr :: string
  ExecutorError :: string

record ProfilerStatus =
  ProfilerName :: string
  ProfilerType :: AbnormalProcessorType
  GoEndpoint :: "string option"
  JavaEndpoint :: "(string \<times> string option \<times> string option) option"
  Expired :: bool
  ProfilerError :: string

record AbnormalCondition =
  CondType :: AbnormalConditionType
  CondStatus :: ConditionStatus
  LastTransitionTime :: Time
  CondReason :: string
  CondMessage :: string

record AbnormalStatus =
  Identifiable :: bool
  Recoverable :: bool
  Phase :: AbnormalPhase
  Conditions :: "AbnormalCondition list"
  Message :: string
  Reason :: string
  StartTime :: Time
  Diagnoser :: "NamespacedName option"
  Recoverer :: "NamespacedName option"
  CommandExecutors :: "CommandExecutorStatus list"
  Profilers :: "ProfilerStatus list"
  Context :: "RawExtension option"

text \<open>The part of \<open>metav1.ObjectMeta\<close> the engine reads: name, namespace and UID.\<close>

record ObjectMeta =
  ObjName :: string
  ObjNamespace :: string
  UID :: string

record Abnormal =
  Meta :: ObjectMeta
  Spec :: AbnormalSpec
  Status :: AbnormalStatus

text \<open>
  The \<open>Recoverer\<close> resource (its type file is not among the sources): the fields
  \<open>runRecovery\<close> reads.  \<open>Port\<close> and \<open>TimeoutSeconds\<close> are \<open>int32\<close>.
\<close>

record RecovererSpec =
  Scheme :: string
  IP :: string
  Port :: "32 word"
  Path :: string
  TimeoutSeconds :: "32 word"

record RecovererObject =
  RecovererMeta :: ObjectMeta
  RecovererSpec :: RecovererSpec

section \<open>Conditions (pkg/util)\<close>

text \<open>
  Modelled from the spec: \<open>GetAbnormalCondition\<close> of pkg/util, whose file is not among
  the sources (its test is).  It finds the first condition of the given type and returns
  its index and the condition, or \<open>-1\<close> and nil.
\<close>

fun conditionIndex :: "AbnormalCondition list \<Rightarrow> AbnormalConditionType \<Rightarrow> nat option" where
  "conditionIndex [] t = None"
| "conditionIndex (c # cs) t =
     (if CondType c = t then Some 0 else map_option Suc (conditionIndex cs t))"

definition GetAbnormalCondition ::
  "AbnormalStatus \<Rightarrow> AbnormalConditionType \<Rightarrow> int \<times> AbnormalCondition option" where
  "GetAbnormalCondition st t =
     (case conditionIndex (Conditions st) t of
        None \<Rightarrow> (- 1, None)
      | Some i \<Rightarrow> (int i, Some (Conditions st ! i)))"

text \<open>
  Modelled from the spec: \<open>UpdateAbnormalCondition\<close> of pkg/util, whose file is not
  among the sources (its test is).  The spec's update rule: find the existing entry by
  type; if the status is unchanged, no-op; otherwise replace status, reason and message
  and set lastTransitionTime to now; if absent, append a new entry with
  lastTransitionTime now.  The Go function mutates the status through a pointer and
  returns the flag; the model returns the new status with the flag.  The first argument
  is the clock's reading.
\<close>

definition UpdateAbnormalCondition ::
  "Time \<Rightarrow> AbnormalStatus \<Rightarrow> AbnormalCondition \<Rightarrow> AbnormalStatus \<times> bool" where
  "UpdateAbnormalCondition now st c =
     (case conditionIndex (Conditions st) (CondType c) of
        None \<Rightarrow>
          (st\<lparr>Conditions := Conditions st @ [c\<lparr>LastTransitionTime := now\<rparr>]\<rparr>, True)
      | Some i \<Rightarrow>
          (let old = Conditions st ! i in
           if CondStatus old = CondStatus c then (st, False)
           else (st\<lparr>Conditions := (Conditions st)
                   [i := old\<lparr>CondStatus := CondStatus c, CondReason := CondReason c,
                             CondMessage := CondMessage c, LastTransitionTime := now\<rparr>]\<rparr>,
                 True)))"

section \<open>Result validation (pkg/util)\<close>

text \<open>
  Modelled from the spec: \<open>ValidateAbnormalResult\<close> of pkg/util, whose file is not
  among the sources (its test is).  The result is compared with the pre-call object field
  by field, in the order of the spec's list: the entire spec, identifiable, recoverable,
  phase, conditions, message, reason, startTime, diagnoser, recoverer; the first field
  that differs gives the error.  The error messages are the ones
  \<open>TestValidateAbnormalResult\<close> expects, letter for letter.
\<close>

definition ValidateAbnormalResult :: "Abnormal \<Rightarrow> Abnormal \<Rightarrow> error option" where
  "ValidateAbnormalResult result current =
     (if Spec result \<noteq> Spec current then
        Some (Error ''spec field of Abnormal must not be modified'')
      else if Identifiable (Status result) \<noteq> Identifiable (Status current) then
        Some (Error ''identifiable filed of Abnormal must not be modified'')
      else if Recoverable (Status result) \<noteq> Recoverable (Status current) then
        Some (Error ''recoverable filed of Abnormal must not be modified'')
      else if Phase (Status result) \<noteq> Phase (Status current) then
        Some (Error ''phase filed of Abnormal must not be modified'')
      else if Conditions (Status result) \<noteq> Conditions (Status current) then
        Some (Error ''conditions filed of Abnormal must not be modified'')
      else if Message (Status result) \<noteq> Message (Status current) then
        Some (Error ''message filed of Abnormal must not be modified'')
      else if Reason (Status result) \<noteq> Reason (Status current) then
        Some (Error ''reason filed of Abnormal must not be modified'')
      else if StartTime (Status result) \<noteq> StartTime (Status current) then
        Some (Error ''startTime filed of Abnormal must not be modified'')
      else if Diagnoser (Status result) \<noteq> Diagnoser (Status current) then
        Some (Error ''diagnoser filed of Abnormal must not be modified'')
      else if Recoverer (Status result) \<noteq> Recoverer (Status current) then
        Some (Error ''recoverer filed of Abnormal must not be modified'')
      else None)"

section \<open>Node affinity (pkg/util)\<close>

text \<open>
  Modelled from the spec: \<open>IsAbnormalNodeNameMatched\<close> of pkg/util, whose file is not
  among the sources (its test is).  An empty target node name matches any node; a
  non-empty name matches only the identical name.
\<close>

definition IsAbnormalNodeNameMatched :: "Abnormal \<Rightarrow> string \<Rightarrow> bool" where
  "IsAbnormalNodeNameMatched abnormal node =
     (NodeName (Spec abnormal) = [] \<or> NodeName (Spec abnormal) = node)"

section \<open>The engine's collaborators\<close>

text \<open>
  \<open>time.Duration\<close> is a signed 64-bit count of nanoseconds; the client's transport is
  the chain's one shared transport and is left out.
\<close>

record HTTPClient =
  Timeout :: "64 word"

record URL =
  URLScheme :: string
  Host :: string
  URLPath :: string

abbreviation Second :: "64 word" where
  "Second \<equiv> 1000000000"

text \<open>
  Modelled from the spec: \<open>FormatURL\<close> of pkg/util, whose file is not among the
  sources: the endpoint built from scheme, host, port and path, as \<open>TestFormatURL\<close>
  expects it.
\<close>

definition FormatURL :: "string \<Rightarrow> string \<Rightarrow> string \<Rightarrow> string \<Rightarrow> URL" where
  "FormatURL scheme host port path =
     \<lparr>URLScheme = scheme, Host = host @ '':'' @ port, URLPath = path\<rparr>"

text \<open>
  What the engine calls and does not define: the resource store (\<open>client.Get\<close>,
  \<open>cache.List\<close>, \<open>client.Status().Update\<close>), the HTTP exchange with one processor
  (\<open>util.DoHTTPRequestWithAbnormal\<close>), the embedded processors
  (\<open>util.RunCommandExecutor\<close>, \<open>util.RunProfiler\<close>), the clock and the library
  functions \<open>strings.ToLower\<close> and \<open>strconv.Itoa\<close>.  Each is a field of the
  environment; an error return is \<open>Inl\<close> or \<open>Some\<close>.  Within one run a
  collaborator answers as a function of what it is asked.
\<close>

record Env =
  nodeName :: string
  dataRoot :: string
  clock :: Time
  ToLower :: "string \<Rightarrow> string"
  Itoa :: "int \<Rightarrow> string"
  clientGet :: "string \<times> string \<Rightarrow> error + Abnormal"
  cacheList :: "error + RecovererObject list"
  statusUpdate :: "Abnormal \<Rightarrow> error option"
  DoHTTPRequestWithAbnormal :: "Abnormal \<Rightarrow> URL \<Rightarrow> HTTPClient \<Rightarrow> error + Abnormal"
  RunCommandExecutor :: "CommandExecutorSpec \<Rightarrow> CommandExecutorStatus \<times> error option"
  RunProfiler :: "string \<Rightarrow> string \<Rightarrow> string \<Rightarrow> ProfilerSpec \<Rightarrow> PodReference option
                    \<Rightarrow> ProfilerStatus \<times> error option"

text \<open>
  What the engine does to the outside: the HTTP requests it sends (endpoint, client and
  payload), the objects it submits to the store's status update, and the Abnormals it
  hands to \<open>util.QueueAbnormal\<close> for another round.  Log lines, metrics counters and
  Kubernetes events never steer the control flow and are left out.
\<close>

record World =
  requests :: "(URL \<times> HTTPClient \<times> Abnormal) list"
  updates :: "Abnormal list"
  queued :: "Abnormal list"

section \<open>The recoverer chain (pkg/recovererchain/recovererchain.go)\<close>

definition setAbnormalSucceeded ::
  "Env \<Rightarrow> Abnormal \<Rightarrow> World \<Rightarrow> (Abnormal \<times> error option) \<times> World" where
  "setAbnormalSucceeded env abnormal w =
     (let st = (Status abnormal)\<lparr>Phase := AbnormalSucceeded, Recoverable := True\<rparr>;
          st' = fst (UpdateAbnormalCondition (clock env) st
                  \<lparr>CondType = AbnormalRecovered, CondStatus = ConditionTrue,
                   LastTransitionTime = 0, CondReason = [], CondMessage = []\<rparr>);
          abnormal' = abnormal\<lparr>Status := st'\<rparr>
      in ((abnormal', statusUpdate env abnormal'), w\<lparr>updates := updates w @ [abnormal']\<rparr>))"

definition setAbnormalFailed ::
  "Env \<Rightarrow> Abnormal \<Rightarrow> World \<Rightarrow> (Abnormal \<times> error option) \<times> World" where
  "setAbnormalFailed env abnormal w =
     (let st = (Status abnormal)\<lparr>Phase := AbnormalFailed, Recoverable := False\<rparr>;
          st' = fst (UpdateAbnormalCondition (clock env) st
                  \<lparr>CondType = AbnormalRecovered, CondStatus = ConditionFalse,
                   LastTransitionTime = 0, CondReason = [], CondMessage = []\<rparr>);
          abnormal' = abnormal\<lparr>Status := st'\<rparr>
      in ((abnormal', statusUpdate env abnormal'), w\<lparr>updates := updates w @ [abnormal']\<rparr>))"

text \<open>The two loops over the embedded processors of Recoverer type.\<close>

fun runCommandExecutors :: "Env \<Rightarrow> CommandExecutorSpec list \<Rightarrow> Abnormal \<Rightarrow> Abnormal" where
  "runCommandExecutors env [] abnormal = abnormal"
| "runCommandExecutors env (executorSpec # rest) abnormal =
     (if SpecType executorSpec = RecovererType then
        runCommandExecutors env rest
          (abnormal\<lparr>Status := (Status abnormal)
             \<lparr>CommandExecutors := CommandExecutors (Status abnormal)
                 @ [fst (RunCommandExecutor env executorSpec)]\<rparr>\<rparr>)
      else runCommandExecutors env rest abnormal)"

fun runProfilers :: "Env \<Rightarrow> ProfilerSpec list \<Rightarrow> Abnormal \<Rightarrow> Abnormal" where
  "runProfilers env [] abnormal = abnormal"
| "runProfilers env (profilerSpec # rest) abnormal =
     (if ProfilerSpecType profilerSpec = RecovererType then
        runProfilers env rest
          (abnormal\<lparr>Status := (Status abnormal)
             \<lparr>Profilers := Profilers (Status abnormal)
                 @ [fst (RunProfiler env (ObjName (Meta abnormal)) (ObjNamespace (Meta abnormal))
                          (dataRoot env) profilerSpec (SpecPodReference (Spec abnormal)))]\<rparr>\<rparr>)
      else runProfilers env rest abnormal)"

definition runEmbedded :: "Env \<Rightarrow> Abnormal \<Rightarrow> Abnormal" where
  "runEmbedded env abnormal =
     (let abnormal1 = runCommandExecutors env (SpecCommandExecutors (Spec abnormal)) abnormal
      in runProfilers env (SpecProfilers (Spec abnormal1)) abnormal1)"

text \<open>The inner loop: is the recoverer among the assigned ones, by name and namespace.\<close>

fun assignedMatched :: "RecovererObject \<Rightarrow> NamespacedName list \<Rightarrow> bool" where
  "assignedMatched recoverer [] = False"
| "assignedMatched recoverer (assignedRecoverer # rest) =
     (if ObjName (RecovererMeta recoverer) = Name assignedRecoverer
         \<and> ObjNamespace (RecovererMeta recoverer) = Namespace assignedRecoverer
      then True else assignedMatched recoverer rest)"

definition recovererURL :: "Env \<Rightarrow> RecovererObject \<Rightarrow> URL" where
  "recovererURL env recoverer =
     FormatURL (ToLower env (Scheme (RecovererSpec recoverer))) (IP (RecovererSpec recoverer))
       (Itoa env (sint (Port (RecovererSpec recoverer)))) (Path (RecovererSpec recoverer))"

definition recovererClient :: "RecovererObject \<Rightarrow> HTTPClient" where
  "recovererClient recoverer =
     \<lparr>Timeout = scast (TimeoutSeconds (RecovererSpec recoverer)) * Second\<rparr>"

text \<open>The loop over the catalog; falling out of it is \<open>setAbnormalFailed\<close>.\<close>

fun recoverLoop ::
  "Env \<Rightarrow> RecovererObject list \<Rightarrow> Abnormal \<Rightarrow> World \<Rightarrow> (Abnormal \<times> error option) \<times> World" where
  "recoverLoop env [] abnormal w = setAbnormalFailed env abnormal w"
| "recoverLoop env (recoverer # rest) abnormal w =
     (if \<not> assignedMatched recoverer (AssignedRecoverers (Spec abnormal)) then
        recoverLoop env rest abnormal w
      else
        let url = recovererURL env recoverer;
            cli = recovererClient recoverer;
            w' = w\<lparr>requests := requests w @ [(url, cli, abnormal)]\<rparr>
        in case DoHTTPRequestWithAbnormal env abnormal url cli of
             Inl err \<Rightarrow> recoverLoop env rest abnormal w'
           | Inr result \<Rightarrow>
               (case ValidateAbnormalResult result abnormal of
                  Some err \<Rightarrow> recoverLoop env rest abnormal w'
                | None \<Rightarrow>
                    setAbnormalSucceeded env
                      (abnormal\<lparr>Status := (Status result)
                         \<lparr>Recoverer := Some \<lparr>Namespace = ObjNamespace (RecovererMeta recoverer),
                                             Name = ObjName (RecovererMeta recoverer)\<rparr>\<rparr>\<rparr>)
                      w'))"

definition runRecovery ::
  "Env \<Rightarrow> RecovererObject list \<Rightarrow> Abnormal \<Rightarrow> World \<Rightarrow> (Abnormal \<times> error option) \<times> World" where
  "runRecovery env recoverers abnormal w =
     (let abnormal' = runEmbedded env abnormal in
      if length (AssignedRecoverers (Spec abnormal')) = 0 then setAbnormalSucceeded env abnormal' w
      else recoverLoop env recoverers abnormal' w)"

text \<open>
  \<open>SyncAbnormal\<close>: list the recoverers, run the recovery; on either error the Abnormal
  goes back to the queue.
\<close>

definition SyncAbnormal :: "Env \<Rightarrow> Abnormal \<Rightarrow> World \<Rightarrow> (Abnormal \<times> error option) \<times> World" where
  "SyncAbnormal env abnormal w =
     (case cacheList env of
        Inl err \<Rightarrow> ((abnormal, Some err), w\<lparr>queued := queued w @ [abnormal]\<rparr>)
      | Inr recoverers \<Rightarrow>
          (case runRecovery env recoverers abnormal w of
             ((abnormal', Some err), w') \<Rightarrow>
               ((abnormal', Some err), w'\<lparr>queued := queued w' @ [abnormal']\<rparr>)
           | ((abnormal', None), w') \<Rightarrow> ((abnormal', None), w')))"

text \<open>
  One round of the loop of \<open>Run\<close>, for one Abnormal taken from the channel: fetch the
  live object; not found drops it, another error queues it again; then the phase filter
  and the node filter; then \<open>SyncAbnormal\<close>.  \<open>Run\<close> itself is the rounds in the order
  of arrival.
\<close>

definition RunOne :: "Env \<Rightarrow> Abnormal \<Rightarrow> World \<Rightarrow> World" where
  "RunOne env abnormal w =
     (case clientGet env (ObjName (Meta abnormal), ObjNamespace (Meta abnormal)) of
        Inl err \<Rightarrow> if IsNotFound err then w else w\<lparr>queued := queued w @ [abnormal]\<rparr>
      | Inr live \<Rightarrow>
          if Phase (Status live) \<noteq> AbnormalRecovering then w
          else if IsAbnormalNodeNameMatched live (nodeName env) then snd (SyncAbnormal env live w)
          else w)"

fun Run :: "Env \<Rightarrow> Abnormal list \<Rightarrow> World \<Rightarrow> World" where
  "Run env [] w = w"
| "Run env (abnormal # rest) w = Run env rest (RunOne env abnormal w)"

section \<open>The earlier revision of the chain (unnamed/part_000)\<close>

text \<open>
  The same file at an earlier revision: no embedded processors, a skip flag in the spec,
  an empty assigned list that makes every recoverer of the catalog eligible, and a
  validated response whose status is dropped (only the recoverer's identity is recorded).
  The endpoint and the client are built as in the later revision.
\<close>

definition SetAbnormalSucceeded ::
  "Env \<Rightarrow> Abnormal \<Rightarrow> World \<Rightarrow> (Abnormal \<times> error option) \<times> World" where
  "SetAbnormalSucceeded env abnormal w =
     (let st = (Status abnormal)\<lparr>Phase := AbnormalSucceeded, Recoverable := True\<rparr>;
          st' = fst (UpdateAbnormalCondition (clock env) st
                  \<lparr>CondType = AbnormalRecovered, CondStatus = ConditionTrue,
                   LastTransitionTime = 0, CondReason = [], CondMessage = []\<rparr>);
          abnormal' = abnormal\<lparr>Status := st'\<rparr>
      in ((abnormal', statusUpdate env abnormal'), w\<lparr>updates := updates w @ [abnormal']\<rparr>))"

definition SetAbnormalFailed ::
  "Env \<Rightarrow> Abnormal \<Rightarrow> World \<Rightarrow> (Abnormal \<times> error option) \<times> World" where
  "SetAbnormalFailed env abnormal w =
     (let st = (Status abnormal)\<lparr>Phase := AbnormalFailed, Recoverable := False\<rparr>;
          st' = fst (UpdateAbnormalCondition (clock env) st
                  \<lparr>CondType = AbnormalRecovered, CondStatus = ConditionFalse,
                   LastTransitionTime = 0, CondReason = [], CondMessage = []\<rparr>);
          abnormal' = abnormal\<lparr>Status := st'\<rparr>
      in ((abnormal', statusUpdate env abnormal'), w\<lparr>updates := updates w @ [abnormal']\<rparr>))"

fun RecoverLoop ::
  "Env \<Rightarrow> RecovererObject list \<Rightarrow> Abnormal \<Rightarrow> World \<Rightarrow> (Abnormal \<times> error option) \<times> World" where
  "RecoverLoop env [] abnormal w = SetAbnormalFailed env abnormal w"
| "RecoverLoop env (recoverer # rest) abnormal w =
     (let matched =
            (if length (AssignedRecoverers (Spec abnormal)) = 0 then True
             else assignedMatched recoverer (AssignedRecoverers (Spec abnormal)))
      in if \<not> matched then RecoverLoop env rest abnormal w
         else
           let url = recovererURL env recoverer;
               cli = recovererClient recoverer;
               w' = w\<lparr>requests := requests w @ [(url, cli, abnormal)]\<rparr>
           in case DoHTTPRequestWithAbnormal env abnormal url cli of
                Inl err \<Rightarrow> RecoverLoop env rest abnormal w'
              | Inr result \<Rightarrow>
                  (case ValidateAbnormalResult result abnormal of
                     Some err \<Rightarrow> RecoverLoop env rest abnormal w'
                   | None \<Rightarrow>
                       SetAbnormalSucceeded env
                         (abnormal\<lparr>Status := (Status abnormal)
                            \<lparr>Recoverer := Some \<lparr>Namespace = ObjNamespace (RecovererMeta recoverer),
                                                Name = ObjName (RecovererMeta recoverer)\<rparr>\<rparr>\<rparr>)
                         w'))"

definition RunRecovery ::
  "Env \<Rightarrow> RecovererObject list \<Rightarrow> Abnormal \<Rightarrow> World \<Rightarrow> (Abnormal \<times> error option) \<times> World" where
  "RunRecovery env recoverers abnormal w =
     (if SkipRecovery (Spec abnormal) then SetAbnormalSucceeded env abnormal w
      else RecoverLoop env recoverers abnormal w)"

section \<open>The stage outcome in the spec's words\<close>

text \<open>
  A processor is eligible only if it appears in the assigned list (when non-empty) or
  always (when the assigned list is empty).
\<close>

definition eligible :: "Abnormal \<Rightarrow> RecovererObject \<Rightarrow> bool" where
  "eligible abnormal recoverer =
     (AssignedRecoverers (Spec abnormal) = [] \<or>
      (\<exists>x \<in> set (AssignedRecoverers (Spec abnormal)).
         Name x = ObjName (RecovererMeta recoverer)
         \<and> Namespace x = ObjNamespace (RecovererMeta recoverer)))"

text \<open>The request one dispatch sends, and the response if it arrives and validates.\<close>

definition request :: "Env \<Rightarrow> Abnormal \<Rightarrow> RecovererObject \<Rightarrow> URL \<times> HTTPClient \<times> Abnormal" where
  "request env abnormal recoverer =
     (recovererURL env recoverer, recovererClient recoverer, abnormal)"

definition validResponse :: "Env \<Rightarrow> Abnormal \<Rightarrow> RecovererObject \<Rightarrow> Abnormal option" where
  "validResponse env abnormal recoverer =
     (case DoHTTPRequestWithAbnormal env abnormal (recovererURL env recoverer)
             (recovererClient recoverer) of
        Inl err \<Rightarrow> None
      | Inr result \<Rightarrow>
          (if ValidateAbnormalResult result abnormal = None then Some result else None))"

definition identity :: "RecovererObject \<Rightarrow> NamespacedName" where
  "identity recoverer =
     \<lparr>Namespace = ObjNamespace (RecovererMeta recoverer), Name = ObjName (RecovererMeta recoverer)\<rparr>"

text \<open>
  Iterate the catalog in catalog order; dispatch to each eligible processor; stop at the
  first whose response validates and mark the stage succeeded with that processor's
  identity and returned status; if the catalog is exhausted, mark the stage failed.
\<close>

definition stageOutcome ::
  "Env \<Rightarrow> RecovererObject list \<Rightarrow> Abnormal \<Rightarrow> World \<Rightarrow> (Abnormal \<times> error option) \<times> World" where
  "stageOutcome env catalog abnormal w =
     (let candidates = filter (eligible abnormal) catalog;
          rejected = takeWhile (\<lambda>r. validResponse env abnormal r = None) candidates;
          sent = (\<lambda>rs. w\<lparr>requests := requests w @ map (request env abnormal) rs\<rparr>)
      in case List.map_filter
                (\<lambda>r. map_option (Pair r) (validResponse env abnormal r)) candidates of
           [] \<Rightarrow> setAbnormalFailed env abnormal (sent candidates)
         | (recoverer, result) # others \<Rightarrow>
             setAbnormalSucceeded env
               (abnormal\<lparr>Status := (Status result)\<lparr>Recoverer := Some (identity recoverer)\<rparr>\<rparr>)
               (sent (rejected @ [recoverer])))"

text \<open>
  A terminal status couples the phase with its bookkeeping: Succeeded with recoverable
  and a Recovered condition of status True, Failed with not recoverable and a Recovered
  condition of status False.  A terminal update submits the returned object, once.
\<close>

definition coupledSucceeded :: "AbnormalStatus \<Rightarrow> bool" where
  "coupledSucceeded st =
     (Phase st = AbnormalSucceeded \<and> Recoverable st \<and>
      (case snd (GetAbnormalCondition st AbnormalRecovered) of
         None \<Rightarrow> False | Some c \<Rightarrow> CondStatus c = ConditionTrue))"

definition coupledFailed :: "AbnormalStatus \<Rightarrow> bool" where
  "coupledFailed st =
     (Phase st = AbnormalFailed \<and> \<not> Recoverable st \<and>
      (case snd (GetAbnormalCondition st AbnormalRecovered) of
         None \<Rightarrow> False | Some c \<Rightarrow> CondStatus c = ConditionFalse))"

definition terminalUpdate :: "World \<Rightarrow> (Abnormal \<times> error option) \<times> World \<Rightarrow> bool" where
  "terminalUpdate w r =
     (updates (snd r) = updates w @ [fst (fst r)] \<and>
      (coupledSucceeded (Status (fst (fst r))) \<or> coupledFailed (Status (fst (fst r)))))"

section \<open>The context blob (pkg/util)\<close>

text \<open>
  \<open>encoding/json\<close>, as far as the accessor uses it: decoding bytes into a map from
  keys to JSON values, and encoding such a map.  \<open>'v\<close> is the type of JSON values.
\<close>

record 'v JSON =
  Unmarshal :: "byte list \<Rightarrow> error + (string \<rightharpoonup> 'v)"
  Marshal :: "(string \<rightharpoonup> 'v) \<Rightarrow> error + byte list"



definition GetAbnormalContext :: "'v JSON \<Rightarrow> Abnormal \<Rightarrow> string \<Rightarrow> error + 'v option" where
  "GetAbnormalContext json abnormal key =
     (case Context (Status abnormal) of
        None \<Rightarrow> Inl (Error ''abnormal context nil'')
      | Some ext \<Rightarrow>
          if Raw ext = [] then Inl (Error ''abnormal context empty'')
          else (case Unmarshal json (Raw ext) of
                  Inl err \<Rightarrow> Inl err
                | Inr m \<Rightarrow> Inr (m key)))"

definition RemoveAbnormalContext ::
  "'v JSON \<Rightarrow> Abnormal \<Rightarrow> string \<Rightarrow> Abnormal \<times> bool \<times> error option" where
  "RemoveAbnormalContext json abnormal key =
     (case Context (Status abnormal) of
        None \<Rightarrow> (abnormal, True, None)
      | Some ext \<Rightarrow>
          if Raw ext = [] then (abnormal, True, None)
          else (case Unmarshal json (Raw ext) of
                  Inl err \<Rightarrow> (abnormal, False, Some err)
                | Inr m \<Rightarrow>
                    (case Marshal json (m(key := None)) of
                       Inl err \<Rightarrow> (abnormal, False, Some err)
                     | Inr raw \<Rightarrow>
                         (abnormal\<lparr>Status := (Status abnormal)\<lparr>Context := Some \<lparr>Raw = raw\<rparr>\<rparr>\<rparr>,
                          True, None))))"

section \<open>The protected fields in the spec's words\<close>

text \<open>
  The fields a processor's response must leave as they were, in the order of the spec's
  list, each with the label its error message carries and the comparison it stands for.
\<close>

definition protectedFields :: "(string \<times> (Abnormal \<Rightarrow> Abnormal \<Rightarrow> bool)) list" where
  "protectedFields =
     [(''spec field'', \<lambda>r c. Spec r = Spec c),
      (''identifiable filed'', \<lambda>r c. Identifiable (Status r) = Identifiable (Status c)),
      (''recoverable filed'', \<lambda>r c. Recoverable (Status r) = Recoverable (Status c)),
      (''phase filed'', \<lambda>r c. Phase (Status r) = Phase (Status c)),
      (''conditions filed'', \<lambda>r c. Conditions (Status r) = Conditions (Status c)),
      (''message filed'', \<lambda>r c. Message (Status r) = Message (Status c)),
      (''reason filed'', \<lambda>r c. Reason (Status r) = Reason (Status c)),
      (''startTime filed'', \<lambda>r c. StartTime (Status r) = StartTime (Status c)),
      (''diagnoser filed'', \<lambda>r c. Diagnoser (Status r) = Diagnoser (Status c)),
      (''recoverer filed'', \<lambda>r c. Recoverer (Status r) = Recoverer (Status c))]"

section \<open>Objects of the tests and scenarios\<close>

text \<open>The zero values of the Go structs: \<open>diagnosisv1.Abnormal{}\<close>.\<close>

definition emptySpec :: AbnormalSpec where
  "emptySpec =
     \<lparr>Source = [], SpecPrometheusAlert = None, SpecKubernetesEvent = None, NodeName = [],
      SpecPodReference = None, AssignedInformationCollectors = [], AssignedDiagnosers = [],
      AssignedRecoverers = [], SpecCommandExecutors = [], SpecProfilers = [],
      SpecContext = None, SkipRecovery = False\<rparr>"

definition emptyStatus :: AbnormalStatus where
  "emptyStatus =
     \<lparr>Identifiable = False, Recoverable = False, Phase = [], Conditions = [], Message = [],
      Reason = [], StartTime = 0, Diagnoser = None, Recoverer = None, CommandExecutors = [],
      Profilers = [], Context = None\<rparr>"

definition emptyAbnormal :: Abnormal where
  "emptyAbnormal =
     \<lparr>Meta = \<lparr>ObjName = [], ObjNamespace = [], UID = []\<rparr>, Spec = emptySpec,
      Status = emptyStatus\<rparr>"

text \<open>The Abnormal of \<open>TestValidateAbnormalResult\<close>.\<close>

definition testAbnormal :: Abnormal where
  "testAbnormal =
     emptyAbnormal
       \<lparr>Spec := emptySpec\<lparr>NodeName := ''node1''\<rparr>,
        Status := emptyStatus
          \<lparr>Phase := AbnormalDiagnosing,
           Conditions :=
             [\<lparr>CondType = InformationCollected, CondStatus = ConditionTrue,
               LastTransitionTime = 0, CondReason = ''successfully'',
               CondMessage = ''sync abnormal successfully''\<rparr>],
           StartTime := 1600000000,
           Diagnoser := Some \<lparr>Namespace = ''default'', Name = ''diagnoser1''\<rparr>\<rparr>\<rparr>"

text \<open>
  A catalog of three recoverers.  In the scenarios the first answers with a forged phase,
  the second is unreachable, and the third answers with the Abnormal it was sent plus a
  context blob.  The third declares no timeout.
\<close>

definition recoverer1 :: RecovererObject where
  "recoverer1 =
     \<lparr>RecovererMeta = \<lparr>ObjName = ''recoverer1'', ObjNamespace = ''default'', UID = ''r1''\<rparr>,
      RecovererSpec = \<lparr>Scheme = ''HTTP'', IP = ''10.0.0.1'', Port = 8090, Path = ''/recover'',
                       TimeoutSeconds = 30\<rparr>\<rparr>"

definition recoverer2 :: RecovererObject where
  "recoverer2 =
     \<lparr>RecovererMeta = \<lparr>ObjName = ''recoverer2'', ObjNamespace = ''default'', UID = ''r2''\<rparr>,
      RecovererSpec = \<lparr>Scheme = ''HTTP'', IP = ''10.0.0.2'', Port = 8090, Path = ''/recover'',
                       TimeoutSeconds = 5\<rparr>\<rparr>"

definition recoverer3 :: RecovererObject where
  "recoverer3 =
     \<lparr>RecovererMeta = \<lparr>ObjName = ''recoverer3'', ObjNamespace = ''default'', UID = ''r3''\<rparr>,
      RecovererSpec = \<lparr>Scheme = ''HTTP'', IP = ''10.0.0.3'', Port = 8090, Path = ''/recover'',
                       TimeoutSeconds = 0\<rparr>\<rparr>"

definition scenarioCatalog :: "RecovererObject list" where
  "scenarioCatalog = [recoverer1, recoverer2, recoverer3]"

definition scenarioContext :: RawExtension where
  "scenarioContext = \<lparr>Raw = [0x7B, 0x7D]\<rparr>"

text \<open>
  An Abnormal in the Recovering phase on node1, with one embedded command executor of
  Recoverer type and no recoverer assigned yet.
\<close>

definition recoveringAbnormal :: Abnormal where
  "recoveringAbnormal =
     \<lparr>Meta = \<lparr>ObjName = ''abnormal1'', ObjNamespace = ''default'', UID = ''u1''\<rparr>,
      Spec = emptySpec
        \<lparr>Source := ''Custom'', NodeName := ''node1'',
         SpecCommandExecutors :=
           [\<lparr>SpecCommand = [''uptime''], SpecType = RecovererType, SpecTimeoutSeconds = 30\<rparr>]\<rparr>,
      Status = emptyStatus
        \<lparr>Identifiable := True, Phase := AbnormalRecovering, StartTime := 1600000000,
         Diagnoser := Some \<lparr>Namespace = ''default'', Name = ''diagnoser1''\<rparr>\<rparr>\<rparr>"

definition scenarioEnv :: Env where
  "scenarioEnv =
     \<lparr>nodeName = ''node1'',
      dataRoot = ''/var/lib/kube-diagnoser'',
      clock = 1600000100,
      ToLower = (\<lambda>s. if s = ''HTTP'' then ''http'' else s),
      Itoa = (\<lambda>n. if n = 8090 then ''8090'' else ''0''),
      clientGet =
        (\<lambda>key. if key = (''abnormal1'', ''default'') then Inr recoveringAbnormal
               else Inl (NotFoundError ''not found'')),
      cacheList = Inr scenarioCatalog,
      statusUpdate = (\<lambda>a. None),
      DoHTTPRequestWithAbnormal =
        (\<lambda>a url cli.
           if Host url = ''10.0.0.1:8090'' then
             Inr (a\<lparr>Status := (Status a)\<lparr>Phase := AbnormalSucceeded\<rparr>\<rparr>)
           else if Host url = ''10.0.0.3:8090'' then
             Inr (a\<lparr>Status := (Status a)\<lparr>Context := Some scenarioContext\<rparr>\<rparr>)
           else Inl (Error ''connection refused'')),
      RunCommandExecutor =
        (\<lambda>s. (\<lparr>Command = SpecCommand s, ExecutorType = SpecType s, Stdout = ''done'',
                 Stderr = [], ExecutorError = []\<rparr>, None)),
      RunProfiler =
        (\<lambda>name namespace root s pod.
           (\<lparr>ProfilerName = ProfilerSpecName s, ProfilerType = ProfilerSpecType s,
             GoEndpoint = None, JavaEndpoint = None, Expired = False, ProfilerError = []\<rparr>,
            None))\<rparr>"

definition emptyWorld :: World where
  "emptyWorld = \<lparr>requests = [], updates = [], queued = []\<rparr>"

definition assign :: "NamespacedName list \<Rightarrow> Abnormal \<Rightarrow> Abnormal" where
  "assign names abnormal = abnormal\<lparr>Spec := (Spec abnormal)\<lparr>AssignedRecoverers := names\<rparr>\<rparr>"

text \<open>
  A JSON library for the scenarios of the context accessor.  Values are JSON texts.  It
  writes an object with its members in the order key1, key2, key3, and reads back the
  objects listed; any other input is a decode error.
\<close>

definition bytes :: "string \<Rightarrow> byte list" where
  "bytes s = map (\<lambda>c. of_nat (of_char c)) s"

definition quoted :: "string \<Rightarrow> string" where
  "quoted s = CHR 0x22 # s @ [CHR 0x22]"

fun commaSeparated :: "string list \<Rightarrow> string" where
  "commaSeparated [] = []"
| "commaSeparated [x] = x"
| "commaSeparated (x # y # rest) = x @ '','' @ commaSeparated (y # rest)"

definition objectText :: "(string \<rightharpoonup> string) \<Rightarrow> string" where
  "objectText m =
     ''{'' @ commaSeparated
              (concat (map (\<lambda>k. case m k of None \<Rightarrow> [] | Some v \<Rightarrow> [quoted k @ '':'' @ v])
                         [''key1'', ''key2'', ''key3''])) @ ''}''"

definition knownObjects :: "(string \<rightharpoonup> string) list" where
  "knownObjects =
     [Map.empty,
      [''key1'' \<mapsto> quoted ''value1''],
      [''key1'' \<mapsto> quoted ''value1'', ''key2'' \<mapsto> quoted ''value2''],
      [''key1'' \<mapsto> quoted ''value1'', ''key2'' \<mapsto> quoted ''value3''],
      [''key1'' \<mapsto> quoted ''value1'', ''key2'' \<mapsto> quoted ''value2'',
       ''key3'' \<mapsto> quoted ''value3'']]"

definition scenarioJSON :: "string JSON" where
  "scenarioJSON =
     \<lparr>Unmarshal =
        (\<lambda>raw. case find (\<lambda>m. bytes (objectText m) = raw) knownObjects of
                 None \<Rightarrow> Inl (Error ''invalid character looking for beginning of value'')
               | Some m \<Rightarrow> Inr m),
      Marshal = (\<lambda>m. Inr (bytes (objectText m)))\<rparr>"

definition withContext :: "RawExtension option \<Rightarrow> Abnormal" where
  "withContext ctx = emptyAbnormal\<lparr>Status := emptyStatus\<lparr>Context := ctx\<rparr>\<rparr>"

section \<open>Conditions\<close>

lemma conditionIndex_Some:
  "conditionIndex cs t = Some i \<Longrightarrow>
     i < length cs \<and> CondType (cs ! i) = t \<and> (\<forall>j < i. CondType (cs ! j) \<noteq> t)"
proof (induction cs arbitrary: i)
  case Nil
  then show ?case by simp
next
  case (Cons c cs)
  show ?case
  proof (cases "CondType c = t")
    case True
    with Cons.prems show ?thesis by simp
  next
    case False
    with Cons.prems obtain k where k: "conditionIndex cs t = Some k" "i = Suc k"
      by auto
    from Cons.IH [OF k(1)] False k(2) show ?thesis
      by (auto simp: less_Suc_eq_0_disj)
  qed
qed

lemma conditionIndex_None:
  "conditionIndex cs t = None \<longleftrightarrow> (\<forall>c \<in> set cs. CondType c \<noteq> t)"
  by (induction cs) auto

lemma conditionIndex_append_new:
  "conditionIndex cs t = None \<Longrightarrow> CondType c = t \<Longrightarrow> conditionIndex (cs @ [c]) t = Some (length cs)"
  by (induction cs) auto

lemma conditionIndex_update_same:
  "conditionIndex cs t = Some i \<Longrightarrow> CondType c = t \<Longrightarrow> conditionIndex (cs[i := c]) t = Some i"
proof (induction cs arbitrary: i)
  case Nil
  then show ?case by simp
next
  case (Cons d ds)
  then show ?case by (cases i) (auto split: if_splits)
qed

lemma UpdateAbnormalCondition_frame:
  "fst (UpdateAbnormalCondition now st c) = st\<lparr>Conditions := Conditions (fst (UpdateAbnormalCondition now st c))\<rparr>"
  by (simp add: UpdateAbnormalCondition_def Let_def split: option.splits)

lemma UpdateAbnormalCondition_lookup:
  "\<exists>c'. snd (GetAbnormalCondition (fst (UpdateAbnormalCondition now st c)) (CondType c)) = Some c'
        \<and> CondType c' = CondType c \<and> CondStatus c' = CondStatus c"
proof (cases "conditionIndex (Conditions st) (CondType c)")
  case None
  then show ?thesis
    by (simp add: UpdateAbnormalCondition_def GetAbnormalCondition_def conditionIndex_append_new)
next
  case (Some i)
  note idx = conditionIndex_Some [OF Some]
  show ?thesis
  proof (cases "CondStatus (Conditions st ! i) = CondStatus c")
    case True
    with Some idx show ?thesis
      by (simp add: UpdateAbnormalCondition_def GetAbnormalCondition_def)
  next
    case False
    let ?n = "(Conditions st ! i)\<lparr>CondStatus := CondStatus c, CondReason := CondReason c,
                             CondMessage := CondMessage c, LastTransitionTime := now\<rparr>"
    have "CondType ?n = CondType c" using idx by simp
    from conditionIndex_update_same [OF Some this] Some False idx show ?thesis
      by (simp add: UpdateAbnormalCondition_def GetAbnormalCondition_def Let_def)
  qed
qed

lemma Conditions_neq:
  "Conditions st' \<noteq> Conditions st \<Longrightarrow> st' \<noteq> st"
  by auto

lemma UpdateAbnormalCondition_changed:
  "snd (UpdateAbnormalCondition now st c) \<longleftrightarrow> fst (UpdateAbnormalCondition now st c) \<noteq> st"
proof (cases "conditionIndex (Conditions st) (CondType c)")
  case None
  have "Conditions (st\<lparr>Conditions := Conditions st @ [c\<lparr>LastTransitionTime := now\<rparr>]\<rparr>) \<noteq> Conditions st"
    by simp
  from Conditions_neq [OF this] None show ?thesis
    by (simp add: UpdateAbnormalCondition_def)
next
  case (Some i)
  note idx = conditionIndex_Some [OF Some]
  show ?thesis
  proof (cases "CondStatus (Conditions st ! i) = CondStatus c")
    case True
    with Some show ?thesis by (simp add: UpdateAbnormalCondition_def)
  next
    case False
    let ?n = "(Conditions st ! i)\<lparr>CondStatus := CondStatus c, CondReason := CondReason c,
                             CondMessage := CondMessage c, LastTransitionTime := now\<rparr>"
    have "CondStatus ?n \<noteq> CondStatus (Conditions st ! i)"
      using False by simp
    then have "?n \<noteq> Conditions st ! i"
      by metis
    then have "(Conditions st)[i := ?n] ! i \<noteq> Conditions st ! i"
      using idx by simp
    then have "Conditions (st\<lparr>Conditions := (Conditions st)[i := ?n]\<rparr>) \<noteq> Conditions st"
      by auto
    from Conditions_neq [OF this] Some False show ?thesis
      by (simp add: UpdateAbnormalCondition_def Let_def)
  qed
qed

lemma UpdateAbnormalCondition_again:
  "UpdateAbnormalCondition now' (fst (UpdateAbnormalCondition now st c)) c
     = (fst (UpdateAbnormalCondition now st c), False)"
proof -
  obtain c' where c': "snd (GetAbnormalCondition (fst (UpdateAbnormalCondition now st c)) (CondType c)) = Some c'"
    "CondStatus c' = CondStatus c"
    using UpdateAbnormalCondition_lookup [of now st c] by blast
  then show ?thesis
    by (auto simp: GetAbnormalCondition_def UpdateAbnormalCondition_def [of now'] Let_def
             split: option.splits)
qed

text \<open>
  Claim C5.  The condition update finds the existing entry by type.  If no entry of that
  type exists it appends the new entry, stamped with the current time, and returns true.
  If the entry found has the same status, nothing changes (the entry keeps its
  lastTransitionTime) and the result is false.  If the entry found has a different status,
  its status, reason and message are replaced in place, at the same index, and the result
  is true.  So the result is true exactly when the status object changed, and applying the
  same update a second time changes nothing and returns false.
\<close>

theorem UpdateAbnormalCondition_rule:
  "(case GetAbnormalCondition st (CondType c) of
      (i, None) \<Rightarrow>
        UpdateAbnormalCondition now st c
          = (st\<lparr>Conditions := Conditions st @ [c\<lparr>LastTransitionTime := now\<rparr>]\<rparr>, True)
    | (i, Some old) \<Rightarrow>
        CondType old = CondType c \<and> 0 \<le> i \<and> nat i < length (Conditions st) \<and>
        (if CondStatus old = CondStatus c then UpdateAbnormalCondition now st c = (st, False)
         else UpdateAbnormalCondition now st c
                = (st\<lparr>Conditions := (Conditions st)
                      [nat i := old\<lparr>CondStatus := CondStatus c, CondReason := CondReason c,
                                   CondMessage := CondMessage c, LastTransitionTime := now\<rparr>]\<rparr>,
                   True)))
   \<and> (snd (UpdateAbnormalCondition now st c)
        \<longleftrightarrow> fst (UpdateAbnormalCondition now st c) \<noteq> st)
   \<and> UpdateAbnormalCondition now' (fst (UpdateAbnormalCondition now st c)) c
        = (fst (UpdateAbnormalCondition now st c), False)"
proof (intro conjI)
  show "case GetAbnormalCondition st (CondType c) of
      (i, None) \<Rightarrow>
        UpdateAbnormalCondition now st c
          = (st\<lparr>Conditions := Conditions st @ [c\<lparr>LastTransitionTime := now\<rparr>]\<rparr>, True)
    | (i, Some old) \<Rightarrow>
        CondType old = CondType c \<and> 0 \<le> i \<and> nat i < length (Conditions st) \<and>
        (if CondStatus old = CondStatus c then UpdateAbnormalCondition now st c = (st, False)
         else UpdateAbnormalCondition now st c
                = (st\<lparr>Conditions := (Conditions st)
                      [nat i := old\<lparr>CondStatus := CondStatus c, CondReason := CondReason c,
                                   CondMessage := CondMessage c, LastTransitionTime := now\<rparr>]\<rparr>,
                   True))"
  proof (cases "conditionIndex (Conditions st) (CondType c)")
    case None
    then show ?thesis
      by (simp add: GetAbnormalCondition_def UpdateAbnormalCondition_def)
  next
    case (Some k)
    with conditionIndex_Some [OF Some] show ?thesis
      by (simp add: GetAbnormalCondition_def UpdateAbnormalCondition_def Let_def)
  qed
  show "snd (UpdateAbnormalCondition now st c)
        \<longleftrightarrow> fst (UpdateAbnormalCondition now st c) \<noteq> st"
    by (rule UpdateAbnormalCondition_changed)
  show "UpdateAbnormalCondition now' (fst (UpdateAbnormalCondition now st c)) c
        = (fst (UpdateAbnormalCondition now st c), False)"
    by (rule UpdateAbnormalCondition_again)
qed

section \<open>Result validation\<close>

lemma ValidateAbnormalResult_find:
  "ValidateAbnormalResult result current =
     (case find (\<lambda>(label, same). \<not> same result current) protectedFields of
        None \<Rightarrow> None
      | Some (label, same) \<Rightarrow> Some (Error (label @ '' of Abnormal must not be modified'')))"
  by (simp add: ValidateAbnormalResult_def protectedFields_def)

lemma ValidateAbnormalResult_None:
  "ValidateAbnormalResult result current = None \<longleftrightarrow>
     Spec result = Spec current \<and>
     Identifiable (Status result) = Identifiable (Status current) \<and>
     Recoverable (Status result) = Recoverable (Status current) \<and>
     Phase (Status result) = Phase (Status current) \<and>
     Conditions (Status result) = Conditions (Status current) \<and>
     Message (Status result) = Message (Status current) \<and>
     Reason (Status result) = Reason (Status current) \<and>
     StartTime (Status result) = StartTime (Status current) \<and>
     Diagnoser (Status result) = Diagnoser (Status current) \<and>
     Recoverer (Status result) = Recoverer (Status current)"
  by (simp add: ValidateAbnormalResult_def)

text \<open>
  Claim C2, as amended.  The validator rejects a result exactly when it differs from the
  pre-call object in one of the protected fields (the entire spec, identifiable,
  recoverable, phase, conditions, message, reason, startTime, diagnoser, recoverer), and
  the error is the one of the first differing field in that order.  Its message is
  "spec field of Abnormal must not be modified" for the spec and
  "<name> filed of Abnormal must not be modified" (spelled so) for the nine status fields.
  A result that differs only in status context, command-executor results or profiler
  results is accepted with no error.
\<close>

theorem ValidateAbnormalResult_protected:
  "ValidateAbnormalResult result current =
     (case find (\<lambda>(label, same). \<not> same result current) protectedFields of
        None \<Rightarrow> None
      | Some (label, same) \<Rightarrow> Some (Error (label @ '' of Abnormal must not be modified'')))
   \<and> (ValidateAbnormalResult result current = None \<longleftrightarrow>
        list_all (\<lambda>(label, same). same result current) protectedFields)
   \<and> ValidateAbnormalResult
        (current\<lparr>Status := (Status current)
           \<lparr>Context := ctx, CommandExecutors := executors, Profilers := profilers\<rparr>\<rparr>)
        current = None"
  by (simp add: ValidateAbnormalResult_find [symmetric] ValidateAbnormalResult_None)
     (simp add: protectedFields_def)

text \<open>
  The messages are not "<field> of Abnormal must not be modified" with the bare field
  name: on the Abnormal of the test, a flipped identifiable flag and a changed node name
  give the messages of the test.
\<close>

theorem ValidateAbnormalResult_message_counterexample:
  "ValidateAbnormalResult (testAbnormal\<lparr>Status := (Status testAbnormal)\<lparr>Identifiable := True\<rparr>\<rparr>)
     testAbnormal
     = Some (Error ''identifiable filed of Abnormal must not be modified'')
   \<and> ValidateAbnormalResult (testAbnormal\<lparr>Status := (Status testAbnormal)\<lparr>Identifiable := True\<rparr>\<rparr>)
       testAbnormal
     \<noteq> Some (Error ''identifiable of Abnormal must not be modified'')
   \<and> ValidateAbnormalResult (testAbnormal\<lparr>Spec := emptySpec\<lparr>NodeName := ''node2''\<rparr>\<rparr>) testAbnormal
     = Some (Error ''spec field of Abnormal must not be modified'')
   \<and> ValidateAbnormalResult (testAbnormal\<lparr>Spec := emptySpec\<lparr>NodeName := ''node2''\<rparr>\<rparr>) testAbnormal
     \<noteq> Some (Error ''spec of Abnormal must not be modified'')"
  by (simp add: ValidateAbnormalResult_def testAbnormal_def emptySpec_def emptyStatus_def
        emptyAbnormal_def)

section \<open>Terminal updates\<close>

lemma UpdateAbnormalCondition_Phase:
  "Phase (fst (UpdateAbnormalCondition now st c)) = Phase st"
  "Recoverable (fst (UpdateAbnormalCondition now st c)) = Recoverable st"
  by (simp_all add: UpdateAbnormalCondition_def Let_def split: option.splits)

lemma setAbnormalSucceeded_coupled:
  "coupledSucceeded (Status (fst (fst (setAbnormalSucceeded env a w))))"
proof -
  let ?c = "\<lparr>CondType = AbnormalRecovered, CondStatus = ConditionTrue,
             LastTransitionTime = 0, CondReason = [], CondMessage = []\<rparr>"
  let ?st = "(Status a)\<lparr>Phase := AbnormalSucceeded, Recoverable := True\<rparr>"
  from UpdateAbnormalCondition_lookup [of "clock env" ?st ?c]
  show ?thesis
    by (auto simp: coupledSucceeded_def setAbnormalSucceeded_def Let_def UpdateAbnormalCondition_Phase)
qed

lemma setAbnormalFailed_coupled:
  "coupledFailed (Status (fst (fst (setAbnormalFailed env a w))))"
proof -
  let ?c = "\<lparr>CondType = AbnormalRecovered, CondStatus = ConditionFalse,
             LastTransitionTime = 0, CondReason = [], CondMessage = []\<rparr>"
  let ?st = "(Status a)\<lparr>Phase := AbnormalFailed, Recoverable := False\<rparr>"
  from UpdateAbnormalCondition_lookup [of "clock env" ?st ?c]
  show ?thesis
    by (auto simp: coupledFailed_def setAbnormalFailed_def Let_def UpdateAbnormalCondition_Phase)
qed

lemma SetAbnormal_same:
  "SetAbnormalSucceeded = setAbnormalSucceeded" "SetAbnormalFailed = setAbnormalFailed"
  by (simp_all add: fun_eq_iff SetAbnormalSucceeded_def setAbnormalSucceeded_def
        SetAbnormalFailed_def setAbnormalFailed_def)

lemma setAbnormal_updates:
  "updates (snd (setAbnormalSucceeded env a w)) = updates w @ [fst (fst (setAbnormalSucceeded env a w))]"
  "updates (snd (setAbnormalFailed env a w)) = updates w @ [fst (fst (setAbnormalFailed env a w))]"
  by (simp_all add: setAbnormalSucceeded_def setAbnormalFailed_def Let_def)

lemma terminalUpdate_set:
  "updates w' = updates w \<Longrightarrow> terminalUpdate w (setAbnormalSucceeded env a w')"
  "updates w' = updates w \<Longrightarrow> terminalUpdate w (setAbnormalFailed env a w')"
  by (simp_all add: terminalUpdate_def setAbnormal_updates setAbnormalSucceeded_coupled
        setAbnormalFailed_coupled)

lemma recoverLoop_terminal:
  "updates w' = updates w \<Longrightarrow> terminalUpdate w (recoverLoop env rs a w')"
proof (induction rs arbitrary: w')
  case Nil
  then show ?case by (simp add: terminalUpdate_set)
next
  case (Cons r rs)
  then show ?case
    by (auto simp: Let_def terminalUpdate_set split: sum.splits option.splits)
qed

lemma RecoverLoop_terminal:
  "updates w' = updates w \<Longrightarrow> terminalUpdate w (RecoverLoop env rs a w')"
proof (induction rs arbitrary: w')
  case Nil
  then show ?case by (simp add: terminalUpdate_set SetAbnormal_same)
next
  case (Cons r rs)
  then show ?case
    by (auto simp: Let_def terminalUpdate_set SetAbnormal_same split: sum.splits option.splits)
qed

lemma runRecovery_terminal:
  "terminalUpdate w (runRecovery env rs a w)"
  by (simp add: runRecovery_def Let_def terminalUpdate_set recoverLoop_terminal)

text \<open>
  Claim C10.  Every terminal status update of the recoverer chain couples the phase with
  its bookkeeping fields.  Marking succeeded gives phase Succeeded, recoverable true and
  a Recovered condition of status True; marking failed gives phase Failed, recoverable
  false and a Recovered condition of status False; this holds of both revisions of the
  two functions.  Whatever the catalog, the Abnormal and the processors' answers, a run of
  the recovery submits exactly one object to the status update, the one it returns, and
  that object is in one of the two coupled states (the skip path included).
\<close>

theorem terminal_updates_coupled:
  "coupledSucceeded (Status (fst (fst (setAbnormalSucceeded env a w)))) \<and>
   coupledFailed (Status (fst (fst (setAbnormalFailed env a w)))) \<and>
   coupledSucceeded (Status (fst (fst (SetAbnormalSucceeded env a w)))) \<and>
   coupledFailed (Status (fst (fst (SetAbnormalFailed env a w)))) \<and>
   terminalUpdate w (runRecovery env rs a w) \<and>
   terminalUpdate w (RunRecovery env rs a w)"
  by (simp add: setAbnormalSucceeded_coupled setAbnormalFailed_coupled SetAbnormal_same
        runRecovery_def RunRecovery_def Let_def terminalUpdate_set recoverLoop_terminal
        RecoverLoop_terminal)

section \<open>The recovery loop\<close>

lemma assignedMatched_iff:
  "assignedMatched r xs \<longleftrightarrow>
     (\<exists>x \<in> set xs. Name x = ObjName (RecovererMeta r) \<and> Namespace x = ObjNamespace (RecovererMeta r))"
  by (induction xs) auto

lemma eligible_assigned:
  "AssignedRecoverers (Spec a) \<noteq> [] \<Longrightarrow>
     eligible a r = assignedMatched r (AssignedRecoverers (Spec a))"
  by (simp add: eligible_def assignedMatched_iff)

lemma eligible_unassigned:
  "AssignedRecoverers (Spec a) = [] \<Longrightarrow> eligible a r"
  by (simp add: eligible_def)

lemma stageOutcome_Nil:
  "stageOutcome env [] a w = setAbnormalFailed env a w"
  by (simp add: stageOutcome_def)

lemma stageOutcome_Cons:
  "stageOutcome env (r # rs) a w =
     (if \<not> eligible a r then stageOutcome env rs a w
      else case validResponse env a r of
             None \<Rightarrow> stageOutcome env rs a (w\<lparr>requests := requests w @ [request env a r]\<rparr>)
           | Some result \<Rightarrow>
               setAbnormalSucceeded env
                 (a\<lparr>Status := (Status result)\<lparr>Recoverer := Some (identity r)\<rparr>\<rparr>)
                 (w\<lparr>requests := requests w @ [request env a r]\<rparr>))"
  by (auto simp: stageOutcome_def Let_def List.map_filter_simps split: option.splits list.splits)

lemma recoverLoop_stageOutcome:
  "AssignedRecoverers (Spec a) \<noteq> [] \<Longrightarrow> recoverLoop env rs a w = stageOutcome env rs a w"
proof (induction rs arbitrary: w)
  case Nil
  show ?case by (simp add: stageOutcome_Nil)
next
  case (Cons r rs)
  note el = eligible_assigned [OF Cons.prems, of r]
  show ?case
  proof (cases "assignedMatched r (AssignedRecoverers (Spec a))")
    case False
    with el Cons show ?thesis by (simp add: stageOutcome_Cons)
  next
    case True
    with el Cons show ?thesis
      by (simp add: stageOutcome_Cons Let_def validResponse_def request_def identity_def
               split: sum.splits option.splits)
  qed
qed

lemma runCommandExecutors_frame:
  "Spec (runCommandExecutors env ss a) = Spec a \<and> Meta (runCommandExecutors env ss a) = Meta a \<and>
   (Status (runCommandExecutors env ss a))\<lparr>CommandExecutors := xs\<rparr> = (Status a)\<lparr>CommandExecutors := xs\<rparr>"
  by (induction ss arbitrary: a) auto

lemma runProfilers_frame:
  "Spec (runProfilers env ps a) = Spec a \<and> Meta (runProfilers env ps a) = Meta a \<and>
   (Status (runProfilers env ps a))\<lparr>Profilers := xs\<rparr> = (Status a)\<lparr>Profilers := xs\<rparr>"
  by (induction ps arbitrary: a) auto

lemma runEmbedded_Spec:
  "Spec (runEmbedded env a) = Spec a" "Meta (runEmbedded env a) = Meta a"
  by (simp_all add: runEmbedded_def Let_def runCommandExecutors_frame runProfilers_frame)

lemma runRecovery_assigned:
  "AssignedRecoverers (Spec a) \<noteq> [] \<Longrightarrow>
     runRecovery env catalog a w = stageOutcome env catalog (runEmbedded env a) w"
  by (simp add: runRecovery_def Let_def runEmbedded_Spec recoverLoop_stageOutcome)

lemma stageOutcome_exhausted:
  "\<forall>r \<in> set (filter (eligible a) catalog). validResponse env a r = None \<Longrightarrow>
     stageOutcome env catalog a w =
       setAbnormalFailed env a
         (w\<lparr>requests := requests w @ map (request env a) (filter (eligible a) catalog)\<rparr>)"
proof (induction catalog arbitrary: w)
  case Nil
  show ?case by (simp add: stageOutcome_Nil)
next
  case (Cons r rs)
  then show ?case by (simp add: stageOutcome_Cons)
qed


lemma setAbnormalSucceeded_result:
  "Phase (Status (fst (fst (setAbnormalSucceeded env a w)))) = AbnormalSucceeded \<and>
   Recoverable (Status (fst (fst (setAbnormalSucceeded env a w)))) \<and>
   (Status (fst (fst (setAbnormalSucceeded env a w))))
      \<lparr>Phase := ph, Recoverable := rb, Conditions := cs\<rparr>
     = (Status a)\<lparr>Phase := ph, Recoverable := rb, Conditions := cs\<rparr> \<and>
   Spec (fst (fst (setAbnormalSucceeded env a w))) = Spec a \<and>
   Meta (fst (fst (setAbnormalSucceeded env a w))) = Meta a \<and>
   snd (fst (setAbnormalSucceeded env a w)) = statusUpdate env (fst (fst (setAbnormalSucceeded env a w))) \<and>
   requests (snd (setAbnormalSucceeded env a w)) = requests w \<and>
   queued (snd (setAbnormalSucceeded env a w)) = queued w"
  by (simp add: setAbnormalSucceeded_def Let_def UpdateAbnormalCondition_def split: option.splits)

lemma setAbnormalFailed_result:
  "Phase (Status (fst (fst (setAbnormalFailed env a w)))) = AbnormalFailed \<and>
   \<not> Recoverable (Status (fst (fst (setAbnormalFailed env a w)))) \<and>
   (Status (fst (fst (setAbnormalFailed env a w))))
      \<lparr>Phase := ph, Recoverable := rb, Conditions := cs\<rparr>
     = (Status a)\<lparr>Phase := ph, Recoverable := rb, Conditions := cs\<rparr> \<and>
   Spec (fst (fst (setAbnormalFailed env a w))) = Spec a \<and>
   Meta (fst (fst (setAbnormalFailed env a w))) = Meta a \<and>
   snd (fst (setAbnormalFailed env a w)) = statusUpdate env (fst (fst (setAbnormalFailed env a w))) \<and>
   requests (snd (setAbnormalFailed env a w)) = requests w \<and>
   queued (snd (setAbnormalFailed env a w)) = queued w"
  by (simp add: setAbnormalFailed_def Let_def UpdateAbnormalCondition_def split: option.splits)


lemmas scenario_defs =
  scenarioEnv_def scenarioCatalog_def recoverer1_def recoverer2_def recoverer3_def
  recoveringAbnormal_def assign_def emptySpec_def emptyStatus_def emptyWorld_def
  runEmbedded_def eligible_def validResponse_def request_def identity_def recovererURL_def
  recovererClient_def FormatURL_def ValidateAbnormalResult_def Let_def


section \<open>Requests and the two revisions of the loop\<close>

lemma recovererClient_timeout:
  "sint (Timeout (recovererClient r)) = sint (TimeoutSeconds (RecovererSpec r)) * 1000000000"
proof -
  let ?t = "TimeoutSeconds (RecovererSpec r)"
  have up: "sint (scast ?t :: 64 word) = sint ?t"
    by (rule sint_up_scast) (simp add: is_up)
  have lo: "- (2 ^ 31) \<le> sint ?t" using sint_ge [of ?t] by simp
  have hi: "sint ?t < 2 ^ 31" using sint_lt [of ?t] by simp
  have s: "sint (1000000000 :: 64 word) = 1000000000" by simp
  have "sint ((scast ?t :: 64 word) * 1000000000)
          = signed_take_bit 63 (sint (scast ?t :: 64 word) * sint (1000000000 :: 64 word))"
    by (simp only: sint_word_ariths) simp
  also have "\<dots> = signed_take_bit 63 (sint ?t * 1000000000)"
    by (simp only: up s)
  also have "\<dots> = sint ?t * 1000000000"
    by (rule signed_take_bit_int_eq_self) (use lo hi in simp_all)
  finally show ?thesis by (simp add: recovererClient_def)
qed

lemma eligible_matched:
  "eligible a r \<longleftrightarrow>
     (if length (AssignedRecoverers (Spec a)) = 0 then True
      else assignedMatched r (AssignedRecoverers (Spec a)))"
  by (simp add: eligible_def assignedMatched_iff)

lemma RecoverLoop_Cons:
  "RecoverLoop env (r # rs) a w =
     (if \<not> eligible a r then RecoverLoop env rs a w
      else case validResponse env a r of
             None \<Rightarrow> RecoverLoop env rs a (w\<lparr>requests := requests w @ [request env a r]\<rparr>)
           | Some result \<Rightarrow>
               SetAbnormalSucceeded env
                 (a\<lparr>Status := (Status a)\<lparr>Recoverer := Some (identity r)\<rparr>\<rparr>)
                 (w\<lparr>requests := requests w @ [request env a r]\<rparr>))"
  by (simp add: eligible_matched Let_def validResponse_def request_def identity_def
        split: sum.splits option.splits)

lemma RecoverLoop_exhausted:
  "\<forall>r \<in> set (filter (eligible a) catalog). validResponse env a r = None \<Longrightarrow>
     RecoverLoop env catalog a w =
       SetAbnormalFailed env a
         (w\<lparr>requests := requests w @ map (request env a) (filter (eligible a) catalog)\<rparr>)"
proof (induction catalog arbitrary: w)
  case Nil
  show ?case by simp
next
  case (Cons r rs)
  then show ?case by (simp add: RecoverLoop_Cons del: RecoverLoop.simps)
qed

lemma stageOutcome_requests:
  "\<exists>rs. set rs \<subseteq> set catalog \<and>
     requests (snd (stageOutcome env catalog a w)) = requests w @ map (request env a) rs"
proof (induction catalog arbitrary: w)
  case Nil
  have "requests (snd (stageOutcome env [] a w)) = requests w @ map (request env a) []"
    by (simp add: stageOutcome_Nil setAbnormalFailed_result)
  then show ?case by blast
next
  case (Cons r rs)
  show ?case
  proof (cases "eligible a r")
    case False
    with Cons [of w] show ?thesis by (auto simp: stageOutcome_Cons)
  next
    case True
    show ?thesis
    proof (cases "validResponse env a r")
      case None
      from Cons [of "w\<lparr>requests := requests w @ [request env a r]\<rparr>"]
      obtain xs where xs: "set xs \<subseteq> set rs"
        "requests (snd (stageOutcome env rs a (w\<lparr>requests := requests w @ [request env a r]\<rparr>)))
           = requests w @ map (request env a) (r # xs)"
        by auto
      have sub: "set (r # xs) \<subseteq> set (r # rs)" using xs(1) by auto
      have "stageOutcome env (r # rs) a w
              = stageOutcome env rs a (w\<lparr>requests := requests w @ [request env a r]\<rparr>)"
        using True None by (simp add: stageOutcome_Cons)
      with xs(2) have "requests (snd (stageOutcome env (r # rs) a w))
              = requests w @ map (request env a) (r # xs)"
        by simp
      with sub show ?thesis by (intro exI [of _ "r # xs"] conjI)
    next
      case (Some result)
      have "set [r] \<subseteq> set (r # rs)" by simp
      moreover have "requests (snd (stageOutcome env (r # rs) a w)) = requests w @ map (request env a) [r]"
        using True Some by (simp add: stageOutcome_Cons setAbnormalSucceeded_result)
      ultimately show ?thesis by blast
    qed
  qed
qed

lemma RecoverLoop_requests:
  "\<exists>rs. set rs \<subseteq> set catalog \<and>
     requests (snd (RecoverLoop env catalog a w)) = requests w @ map (request env a) rs"
proof (induction catalog arbitrary: w)
  case Nil
  have "requests (snd (RecoverLoop env [] a w)) = requests w @ map (request env a) []"
    by (simp add: SetAbnormal_same setAbnormalFailed_result)
  then show ?case by blast
next
  case (Cons r rs)
  show ?case
  proof (cases "eligible a r")
    case False
    with Cons [of w] show ?thesis by (auto simp: RecoverLoop_Cons simp del: RecoverLoop.simps)
  next
    case True
    show ?thesis
    proof (cases "validResponse env a r")
      case None
      from Cons [of "w\<lparr>requests := requests w @ [request env a r]\<rparr>"]
      obtain xs where xs: "set xs \<subseteq> set rs"
        "requests (snd (RecoverLoop env rs a (w\<lparr>requests := requests w @ [request env a r]\<rparr>)))
           = requests w @ map (request env a) (r # xs)"
        by auto
      have sub: "set (r # xs) \<subseteq> set (r # rs)" using xs(1) by auto
      have "RecoverLoop env (r # rs) a w
              = RecoverLoop env rs a (w\<lparr>requests := requests w @ [request env a r]\<rparr>)"
        using True None by (simp add: RecoverLoop_Cons del: RecoverLoop.simps)
      with xs(2) have "requests (snd (RecoverLoop env (r # rs) a w))
              = requests w @ map (request env a) (r # xs)"
        by simp
      with sub show ?thesis by (intro exI [of _ "r # xs"] conjI)
    next
      case (Some result)
      have "set [r] \<subseteq> set (r # rs)" by simp
      moreover have "requests (snd (RecoverLoop env (r # rs) a w)) = requests w @ map (request env a) [r]"
        using True Some
        by (simp add: RecoverLoop_Cons SetAbnormal_same setAbnormalSucceeded_result del: RecoverLoop.simps)
      ultimately show ?thesis by blast
    qed
  qed
qed

lemma runRecovery_requests:
  "\<exists>rs. set rs \<subseteq> set catalog \<and>
     requests (snd (runRecovery env catalog a w))
       = requests w @ map (request env (runEmbedded env a)) rs"
proof (cases "AssignedRecoverers (Spec a) = []")
  case True
  have "set [] \<subseteq> set catalog" by simp
  moreover have "requests (snd (runRecovery env catalog a w))
       = requests w @ map (request env (runEmbedded env a)) []"
    using True by (simp add: runRecovery_def Let_def runEmbedded_Spec setAbnormalSucceeded_result)
  ultimately show ?thesis by blast
next
  case False
  from runRecovery_assigned [OF False, of env catalog w]
    stageOutcome_requests [of catalog env "runEmbedded env a" w]
  show ?thesis by simp
qed

lemma RunRecovery_requests:
  "\<exists>rs. set rs \<subseteq> set catalog \<and>
     requests (snd (RunRecovery env catalog a w)) = requests w @ map (request env a) rs"
proof (cases "SkipRecovery (Spec a)")
  case True
  have "set [] \<subseteq> set catalog" by simp
  moreover have "requests (snd (RunRecovery env catalog a w)) = requests w @ map (request env a) []"
    using True by (simp add: RunRecovery_def SetAbnormal_same setAbnormalSucceeded_result)
  ultimately show ?thesis by blast
next
  case False
  have "RunRecovery env catalog a w = RecoverLoop env catalog a w"
    using False by (simp add: RunRecovery_def)
  with RecoverLoop_requests [of catalog env a w] show ?thesis by simp
qed


lemma runEmbedded_frame:
  "Status (runEmbedded env a)
     = (Status a)\<lparr>CommandExecutors := CommandExecutors (Status (runEmbedded env a)),
                  Profilers := Profilers (Status (runEmbedded env a))\<rparr>"
proof -
  let ?a1 = "runCommandExecutors env (SpecCommandExecutors (Spec a)) a"
  let ?a2 = "runProfilers env (SpecProfilers (Spec ?a1)) ?a1"
  have p: "Status ?a2 = (Status ?a1)\<lparr>Profilers := Profilers (Status ?a2)\<rparr>"
    using runProfilers_frame [of env "SpecProfilers (Spec ?a1)" ?a1 "Profilers (Status ?a2)"]
    by simp
  have c: "Status ?a1 = (Status a)\<lparr>CommandExecutors := CommandExecutors (Status ?a1)\<rparr>"
    using runCommandExecutors_frame [of env "SpecCommandExecutors (Spec a)" a
            "CommandExecutors (Status ?a1)"]
    by simp
  have "CommandExecutors (Status ?a2) = CommandExecutors ((Status ?a1)\<lparr>Profilers := Profilers (Status ?a2)\<rparr>)"
    by (rule arg_cong [OF p])
  then have ce: "CommandExecutors (Status ?a2) = CommandExecutors (Status ?a1)" by simp
  have "Status ?a2 = ((Status a)\<lparr>CommandExecutors := CommandExecutors (Status ?a1)\<rparr>)
                        \<lparr>Profilers := Profilers (Status ?a2)\<rparr>"
    using p c by metis
  then have "Status ?a2 = (Status a)\<lparr>CommandExecutors := CommandExecutors (Status ?a2),
                                     Profilers := Profilers (Status ?a2)\<rparr>"
    by (simp only: ce)
  then show ?thesis by (simp only: runEmbedded_def Let_def)
qed

lemma status_fields_of_frame:
  fixes st st' :: AbnormalStatus
  assumes "st'\<lparr>Phase := ph, Recoverable := rb, Conditions := cs\<rparr>
             = st\<lparr>Phase := ph, Recoverable := rb, Conditions := cs\<rparr>"
  shows "Identifiable st' = Identifiable st \<and> Message st' = Message st \<and> Reason st' = Reason st
    \<and> StartTime st' = StartTime st \<and> Diagnoser st' = Diagnoser st \<and> Recoverer st' = Recoverer st
    \<and> CommandExecutors st' = CommandExecutors st \<and> Profilers st' = Profilers st
    \<and> Context st' = Context st"
proof -
  let ?f = "\<lambda>s::AbnormalStatus. s\<lparr>Phase := ph, Recoverable := rb, Conditions := cs\<rparr>"
  have "Identifiable (?f st') = Identifiable (?f st)" "Message (?f st') = Message (?f st)"
    "Reason (?f st') = Reason (?f st)" "StartTime (?f st') = StartTime (?f st)"
    "Diagnoser (?f st') = Diagnoser (?f st)" "Recoverer (?f st') = Recoverer (?f st)"
    "CommandExecutors (?f st') = CommandExecutors (?f st)" "Profilers (?f st') = Profilers (?f st)"
    "Context (?f st') = Context (?f st)"
    using assms by simp_all
  then show ?thesis by simp
qed

lemma embedded_fields_of_frame:
  fixes st st' :: AbnormalStatus
  assumes "st' = st\<lparr>CommandExecutors := xs, Profilers := ys\<rparr>"
  shows "Identifiable st' = Identifiable st \<and> Recoverable st' = Recoverable st \<and> Phase st' = Phase st
    \<and> Conditions st' = Conditions st \<and> Message st' = Message st \<and> Reason st' = Reason st
    \<and> StartTime st' = StartTime st \<and> Diagnoser st' = Diagnoser st \<and> Recoverer st' = Recoverer st
    \<and> Context st' = Context st"
proof -
  have "Identifiable st' = Identifiable (st\<lparr>CommandExecutors := xs, Profilers := ys\<rparr>)"
    "Recoverable st' = Recoverable (st\<lparr>CommandExecutors := xs, Profilers := ys\<rparr>)"
    "Phase st' = Phase (st\<lparr>CommandExecutors := xs, Profilers := ys\<rparr>)"
    "Conditions st' = Conditions (st\<lparr>CommandExecutors := xs, Profilers := ys\<rparr>)"
    "Message st' = Message (st\<lparr>CommandExecutors := xs, Profilers := ys\<rparr>)"
    "Reason st' = Reason (st\<lparr>CommandExecutors := xs, Profilers := ys\<rparr>)"
    "StartTime st' = StartTime (st\<lparr>CommandExecutors := xs, Profilers := ys\<rparr>)"
    "Diagnoser st' = Diagnoser (st\<lparr>CommandExecutors := xs, Profilers := ys\<rparr>)"
    "Recoverer st' = Recoverer (st\<lparr>CommandExecutors := xs, Profilers := ys\<rparr>)"
    "Context st' = Context (st\<lparr>CommandExecutors := xs, Profilers := ys\<rparr>)"
    by (rule arg_cong [OF assms])+
  then show ?thesis by simp
qed

section \<open>Skipping the recovery\<close>

text \<open>
  Claim C3, as amended.  The engine of recovererchain.go has no skip flag: an Abnormal
  whose assigned-recoverer list is empty is marked succeeded (phase Succeeded) at once,
  after the embedded processors and with no request to any recoverer.  The skip flag
  belongs to the earlier revision of the engine: there, an Abnormal whose flag is set is
  marked succeeded at once with no request to any recoverer, whereas an empty assigned
  list makes every recoverer of the catalog eligible, so that the stage fails, after a
  request to each, when none gives a valid response.
\<close>

theorem skip_recovery_succeeds:
  "(AssignedRecoverers (Spec a) = [] \<longrightarrow>
      runRecovery env catalog a w = setAbnormalSucceeded env (runEmbedded env a) w
      \<and> Phase (Status (fst (fst (runRecovery env catalog a w)))) = AbnormalSucceeded
      \<and> requests (snd (runRecovery env catalog a w)) = requests w)
   \<and> (SkipRecovery (Spec a) \<longrightarrow>
      RunRecovery env catalog a w = SetAbnormalSucceeded env a w
      \<and> Phase (Status (fst (fst (RunRecovery env catalog a w)))) = AbnormalSucceeded
      \<and> requests (snd (RunRecovery env catalog a w)) = requests w)
   \<and> (\<not> SkipRecovery (Spec a) \<and> AssignedRecoverers (Spec a) = []
        \<and> (\<forall>r \<in> set catalog. validResponse env a r = None) \<longrightarrow>
      Phase (Status (fst (fst (RunRecovery env catalog a w)))) = AbnormalFailed
      \<and> requests (snd (RunRecovery env catalog a w)) = requests w @ map (request env a) catalog)"
proof (intro conjI impI)
  assume e: "AssignedRecoverers (Spec a) = []"
  then show r: "runRecovery env catalog a w = setAbnormalSucceeded env (runEmbedded env a) w"
    by (simp add: runRecovery_def Let_def runEmbedded_Spec)
  show "Phase (Status (fst (fst (runRecovery env catalog a w)))) = AbnormalSucceeded"
    unfolding r by (simp add: setAbnormalSucceeded_result)
  show "requests (snd (runRecovery env catalog a w)) = requests w"
    unfolding r by (simp add: setAbnormalSucceeded_result)
next
  assume "SkipRecovery (Spec a)"
  then show r: "RunRecovery env catalog a w = SetAbnormalSucceeded env a w"
    by (simp add: RunRecovery_def)
  show "Phase (Status (fst (fst (RunRecovery env catalog a w)))) = AbnormalSucceeded"
    unfolding r by (simp add: SetAbnormal_same setAbnormalSucceeded_result)
  show "requests (snd (RunRecovery env catalog a w)) = requests w"
    unfolding r by (simp add: SetAbnormal_same setAbnormalSucceeded_result)
next
  assume h: "\<not> SkipRecovery (Spec a) \<and> AssignedRecoverers (Spec a) = []
        \<and> (\<forall>r \<in> set catalog. validResponse env a r = None)"
  then have all: "filter (eligible a) catalog = catalog"
    by (simp add: eligible_def)
  with h have "\<forall>r \<in> set (filter (eligible a) catalog). validResponse env a r = None"
    by simp
  from RecoverLoop_exhausted [OF this, of w] h all
  have r: "RunRecovery env catalog a w
             = setAbnormalFailed env a (w\<lparr>requests := requests w @ map (request env a) catalog\<rparr>)"
    by (simp add: RunRecovery_def SetAbnormal_same)
  show "Phase (Status (fst (fst (RunRecovery env catalog a w)))) = AbnormalFailed"
    unfolding r by (simp add: setAbnormalFailed_result)
  show "requests (snd (RunRecovery env catalog a w)) = requests w @ map (request env a) catalog"
    unfolding r by (simp add: setAbnormalFailed_result)
qed


text \<open>
  The three cases on the scenario: no recoverer assigned, in the engine of
  recovererchain.go; the flag set, with a recoverer assigned, in the earlier revision; and
  no recoverer assigned and no flag in the earlier revision, where both recoverers of the
  catalog are asked and the stage fails.
\<close>

theorem skip_recovery_succeeds_witness:
  "AssignedRecoverers (Spec recoveringAbnormal) = []
   \<and> Phase (Status (fst (fst (runRecovery scenarioEnv scenarioCatalog recoveringAbnormal emptyWorld))))
       = AbnormalSucceeded
   \<and> requests (snd (runRecovery scenarioEnv scenarioCatalog recoveringAbnormal emptyWorld)) = []
   \<and> SkipRecovery (Spec (recoveringAbnormal\<lparr>Spec := (Spec recoveringAbnormal)
         \<lparr>AssignedRecoverers := [\<lparr>Namespace = ''default'', Name = ''recoverer2''\<rparr>],
          SkipRecovery := True\<rparr>\<rparr>))
   \<and> Phase (Status (fst (fst (RunRecovery scenarioEnv scenarioCatalog
        (recoveringAbnormal\<lparr>Spec := (Spec recoveringAbnormal)
           \<lparr>AssignedRecoverers := [\<lparr>Namespace = ''default'', Name = ''recoverer2''\<rparr>],
            SkipRecovery := True\<rparr>\<rparr>) emptyWorld)))) = AbnormalSucceeded
   \<and> requests (snd (RunRecovery scenarioEnv scenarioCatalog
        (recoveringAbnormal\<lparr>Spec := (Spec recoveringAbnormal)
           \<lparr>AssignedRecoverers := [\<lparr>Namespace = ''default'', Name = ''recoverer2''\<rparr>],
            SkipRecovery := True\<rparr>\<rparr>) emptyWorld)) = []
   \<and> \<not> SkipRecovery (Spec recoveringAbnormal)
   \<and> validResponse scenarioEnv recoveringAbnormal recoverer1 = None
   \<and> validResponse scenarioEnv recoveringAbnormal recoverer2 = None
   \<and> Phase (Status (fst (fst (RunRecovery scenarioEnv [recoverer1, recoverer2] recoveringAbnormal
        emptyWorld)))) = AbnormalFailed
   \<and> map (\<lambda>q. Host (fst q)) (requests (snd (RunRecovery scenarioEnv [recoverer1, recoverer2]
        recoveringAbnormal emptyWorld))) = [''10.0.0.1:8090'', ''10.0.0.2:8090'']"
proof -
  let ?s = "recoveringAbnormal\<lparr>Spec := (Spec recoveringAbnormal)
         \<lparr>AssignedRecoverers := [\<lparr>Namespace = ''default'', Name = ''recoverer2''\<rparr>],
          SkipRecovery := True\<rparr>\<rparr>"
  have e: "AssignedRecoverers (Spec recoveringAbnormal) = []"
    by (simp add: recoveringAbnormal_def emptySpec_def)
  have s: "SkipRecovery (Spec ?s)" by simp
  have n: "\<not> SkipRecovery (Spec recoveringAbnormal)"
    by (simp add: recoveringAbnormal_def emptySpec_def)
  have v1: "validResponse scenarioEnv recoveringAbnormal recoverer1 = None"
    by (simp add: scenario_defs)
  have v2: "validResponse scenarioEnv recoveringAbnormal recoverer2 = None"
    by (simp add: scenario_defs)
  have h: "map (\<lambda>q. Host (fst q)) (map (request scenarioEnv recoveringAbnormal) [recoverer1, recoverer2])
             = [''10.0.0.1:8090'', ''10.0.0.2:8090'']"
    by (simp add: request_def recovererURL_def FormatURL_def scenarioEnv_def recoverer1_def
          recoverer2_def)
  have w: "requests emptyWorld = []" by (simp add: emptyWorld_def)
  note t1 = skip_recovery_succeeds [of recoveringAbnormal scenarioEnv scenarioCatalog emptyWorld,
              THEN conjunct1, rule_format, OF e, THEN conjunct2]
  from t1 w
  have 1: "Phase (Status (fst (fst (runRecovery scenarioEnv scenarioCatalog recoveringAbnormal emptyWorld))))
       = AbnormalSucceeded"
    "requests (snd (runRecovery scenarioEnv scenarioCatalog recoveringAbnormal emptyWorld)) = []"
    by simp_all
  note t2 = skip_recovery_succeeds [of ?s scenarioEnv scenarioCatalog emptyWorld,
              THEN conjunct2, THEN conjunct1, rule_format, OF s, THEN conjunct2]
  from t2 w
  have 2: "Phase (Status (fst (fst (RunRecovery scenarioEnv scenarioCatalog ?s emptyWorld))))
       = AbnormalSucceeded"
    "requests (snd (RunRecovery scenarioEnv scenarioCatalog ?s emptyWorld)) = []"
    by simp_all
  have p: "\<not> SkipRecovery (Spec recoveringAbnormal) \<and> AssignedRecoverers (Spec recoveringAbnormal) = []
        \<and> (\<forall>r \<in> set [recoverer1, recoverer2]. validResponse scenarioEnv recoveringAbnormal r = None)"
    using n e v1 v2 by simp
  note t3 = skip_recovery_succeeds [of recoveringAbnormal scenarioEnv "[recoverer1, recoverer2]" emptyWorld,
              THEN conjunct2, THEN conjunct2, rule_format, OF p]
  from t3 w h
  have 3: "Phase (Status (fst (fst (RunRecovery scenarioEnv [recoverer1, recoverer2] recoveringAbnormal
        emptyWorld)))) = AbnormalFailed"
    "map (\<lambda>q. Host (fst q)) (requests (snd (RunRecovery scenarioEnv [recoverer1, recoverer2]
        recoveringAbnormal emptyWorld))) = [''10.0.0.1:8090'', ''10.0.0.2:8090'']"
    by simp_all
  from e s n v1 v2 1 2 3 show ?thesis by (intro conjI)
qed

text \<open>
  In the earlier revision an Abnormal in the Recovering phase with an empty assigned list
  and no flag, facing a catalog of one unreachable recoverer, is sent to that recoverer
  and marked failed: an empty list is neither free of requests nor a success there.
\<close>

theorem empty_assignment_counterexample:
  "Phase (Status recoveringAbnormal) = AbnormalRecovering
   \<and> AssignedRecoverers (Spec recoveringAbnormal) = []
   \<and> Phase (Status (fst (fst (RunRecovery scenarioEnv [recoverer2] recoveringAbnormal emptyWorld))))
       = AbnormalFailed
   \<and> map (\<lambda>q. Host (fst q))
        (requests (snd (RunRecovery scenarioEnv [recoverer2] recoveringAbnormal emptyWorld)))
       = [''10.0.0.2:8090'']"
  by (simp add: scenario_defs RunRecovery_def SetAbnormalFailed_def UpdateAbnormalCondition_def)


section \<open>The client's timeout\<close>

text \<open>
  Claim C8, as amended.  The client of a dispatch has the timeout the recoverer declares:
  its timeoutSeconds times one second, with no wrap-around in the 64-bit duration.  The
  engine applies neither a default nor a minimum of its own.  Every request either
  revision sends goes to a recoverer of the catalog, with the client built from that
  recoverer.
\<close>

theorem recoverer_client_timeout:
  "sint (Timeout (recovererClient r)) = sint (TimeoutSeconds (RecovererSpec r)) * 1000000000
   \<and> (\<exists>rs. set rs \<subseteq> set catalog \<and>
         requests (snd (runRecovery env catalog a w))
           = requests w @ map (\<lambda>r. (recovererURL env r, recovererClient r, runEmbedded env a)) rs)
   \<and> (\<exists>rs. set rs \<subseteq> set catalog \<and>
         requests (snd (RunRecovery env catalog a w))
           = requests w @ map (\<lambda>r. (recovererURL env r, recovererClient r, a)) rs)"
proof -
  have r: "request env b = (\<lambda>r. (recovererURL env r, recovererClient r, b))" for b
    by (rule ext) (simp add: request_def)
  from runRecovery_requests [of catalog env a w] RunRecovery_requests [of catalog env a w]
    recovererClient_timeout [of r]
  show ?thesis unfolding r by (intro conjI)
qed

text \<open>
  The third recoverer of the scenario declares no timeout (0): the request to it carries
  a client timeout of 0 (for Go's client: no time limit), not 30 seconds.  A recoverer
  that declares \<open>-1\<close> gets a client timeout of minus one second, below the minimum.
\<close>

theorem recoverer_client_timeout_counterexample:
  "TimeoutSeconds (RecovererSpec recoverer3) = 0
   \<and> map (\<lambda>q. (Host (fst q), sint (Timeout (fst (snd q)))))
        (requests (snd (runRecovery scenarioEnv scenarioCatalog
           (assign [\<lparr>Namespace = ''default'', Name = ''recoverer3''\<rparr>] recoveringAbnormal)
           emptyWorld)))
       = [(''10.0.0.3:8090'', 0)]
   \<and> sint (Timeout (recovererClient recoverer3)) \<noteq> 30 * 1000000000
   \<and> sint (Timeout (recovererClient
         (recoverer3\<lparr>RecovererSpec := (RecovererSpec recoverer3)\<lparr>TimeoutSeconds := - 1\<rparr>\<rparr>)))
       = - 1000000000
   \<and> \<not> 1 * 1000000000 \<le> sint (Timeout (recovererClient
         (recoverer3\<lparr>RecovererSpec := (RecovererSpec recoverer3)\<lparr>TimeoutSeconds := - 1\<rparr>\<rparr>)))"
proof -
  have "map (\<lambda>q. (Host (fst q), sint (Timeout (fst (snd q)))))
        (requests (snd (runRecovery scenarioEnv scenarioCatalog
           (assign [\<lparr>Namespace = ''default'', Name = ''recoverer3''\<rparr>] recoveringAbnormal)
           emptyWorld)))
       = [(''10.0.0.3:8090'', 0)]"
    by (simp add: scenario_defs runRecovery_def setAbnormalSucceeded_def)
  then show ?thesis
    by (simp add: recovererClient_timeout) (simp add: recoverer3_def)
qed

section \<open>The frame of a failed recovery\<close>

text \<open>
  Claim C9.  When every assigned recoverer of the catalog fails (its dispatch returns an
  error or its response is rejected), the terminal update sets the phase to Failed and
  recoverable to false, and leaves message, reason, startTime, identifiable, diagnoser,
  recoverer, context and the command-executor and profiler result arrays as they were
  when the dispatch began, that is, in the object sent to the recoverers; spec and
  metadata are untouched, and the object returned is the one submitted to the store.
  The embedded processors that ran before the dispatch only appended to the two result
  arrays.
\<close>

theorem all_dispatches_fail_frame:
  assumes "AssignedRecoverers (Spec a) \<noteq> []"
    and "\<forall>r \<in> set catalog. assignedMatched r (AssignedRecoverers (Spec a)) \<longrightarrow>
           validResponse env (runEmbedded env a) r = None"
  shows
    "(let a' = runEmbedded env a;
          out = fst (fst (runRecovery env catalog a w));
          w' = snd (runRecovery env catalog a w)
      in Phase (Status out) = AbnormalFailed \<and> \<not> Recoverable (Status out)
         \<and> Message (Status out) = Message (Status a')
         \<and> Reason (Status out) = Reason (Status a')
         \<and> StartTime (Status out) = StartTime (Status a')
         \<and> Identifiable (Status out) = Identifiable (Status a')
         \<and> Diagnoser (Status out) = Diagnoser (Status a')
         \<and> Recoverer (Status out) = Recoverer (Status a')
         \<and> Context (Status out) = Context (Status a')
         \<and> CommandExecutors (Status out) = CommandExecutors (Status a')
         \<and> Profilers (Status out) = Profilers (Status a')
         \<and> Spec out = Spec a \<and> Meta out = Meta a
         \<and> updates w' = updates w @ [out]
         \<and> Message (Status a') = Message (Status a)
         \<and> Reason (Status a') = Reason (Status a)
         \<and> StartTime (Status a') = StartTime (Status a)
         \<and> Identifiable (Status a') = Identifiable (Status a)
         \<and> Diagnoser (Status a') = Diagnoser (Status a)
         \<and> Recoverer (Status a') = Recoverer (Status a)
         \<and> Context (Status a') = Context (Status a))"
proof -
  let ?a = "runEmbedded env a"
  let ?w = "w\<lparr>requests := requests w @ map (request env ?a) (filter (eligible ?a) catalog)\<rparr>"
  have as: "AssignedRecoverers (Spec ?a) \<noteq> []" using assms(1) by (simp add: runEmbedded_Spec)
  have "\<forall>r \<in> set (filter (eligible ?a) catalog). validResponse env ?a r = None"
    using assms(2) eligible_assigned [OF as] by (simp add: runEmbedded_Spec)
  from stageOutcome_exhausted [OF this, of w] runRecovery_assigned [OF assms(1), of env catalog w]
  have run: "runRecovery env catalog a w = setAbnormalFailed env ?a ?w" by simp
  note res = setAbnormalFailed_result [of env ?a ?w]
  from res have fr: "\<And>ph rb cs. (Status (fst (fst (setAbnormalFailed env ?a ?w))))
                   \<lparr>Phase := ph, Recoverable := rb, Conditions := cs\<rparr>
                 = (Status ?a)\<lparr>Phase := ph, Recoverable := rb, Conditions := cs\<rparr>"
    using setAbnormalFailed_result by blast
  note f1 = status_fields_of_frame [OF fr]
  note f2 = embedded_fields_of_frame [OF runEmbedded_frame [of env a]]
  have up: "updates (snd (setAbnormalFailed env ?a ?w)) = updates w @ [fst (fst (setAbnormalFailed env ?a ?w))]"
    by (simp add: setAbnormal_updates)
  show ?thesis
    unfolding Let_def run using res f1 f2 up by (simp add: runEmbedded_Spec)
qed


text \<open>
  The scenario with the second and the first recoverer assigned: one is unreachable, the
  other forges the phase.
\<close>

theorem all_dispatches_fail_frame_witness:
  "AssignedRecoverers
     (Spec (assign [\<lparr>Namespace = ''default'', Name = ''recoverer2''\<rparr>,
                    \<lparr>Namespace = ''default'', Name = ''recoverer1''\<rparr>] recoveringAbnormal)) \<noteq> []
   \<and> validResponse scenarioEnv (runEmbedded scenarioEnv
         (assign [\<lparr>Namespace = ''default'', Name = ''recoverer2''\<rparr>,
                  \<lparr>Namespace = ''default'', Name = ''recoverer1''\<rparr>] recoveringAbnormal))
        recoverer1 = None
   \<and> validResponse scenarioEnv (runEmbedded scenarioEnv
         (assign [\<lparr>Namespace = ''default'', Name = ''recoverer2''\<rparr>,
                  \<lparr>Namespace = ''default'', Name = ''recoverer1''\<rparr>] recoveringAbnormal))
        recoverer2 = None
   \<and> Phase (Status (fst (fst (runRecovery scenarioEnv scenarioCatalog
         (assign [\<lparr>Namespace = ''default'', Name = ''recoverer2''\<rparr>,
                  \<lparr>Namespace = ''default'', Name = ''recoverer1''\<rparr>] recoveringAbnormal)
         emptyWorld)))) = AbnormalFailed
   \<and> Diagnoser (Status (fst (fst (runRecovery scenarioEnv scenarioCatalog
         (assign [\<lparr>Namespace = ''default'', Name = ''recoverer2''\<rparr>,
                  \<lparr>Namespace = ''default'', Name = ''recoverer1''\<rparr>] recoveringAbnormal)
         emptyWorld)))) = Some \<lparr>Namespace = ''default'', Name = ''diagnoser1''\<rparr>
   \<and> Recoverer (Status (fst (fst (runRecovery scenarioEnv scenarioCatalog
         (assign [\<lparr>Namespace = ''default'', Name = ''recoverer2''\<rparr>,
                  \<lparr>Namespace = ''default'', Name = ''recoverer1''\<rparr>] recoveringAbnormal)
         emptyWorld)))) = None
   \<and> Context (Status (fst (fst (runRecovery scenarioEnv scenarioCatalog
         (assign [\<lparr>Namespace = ''default'', Name = ''recoverer2''\<rparr>,
                  \<lparr>Namespace = ''default'', Name = ''recoverer1''\<rparr>] recoveringAbnormal)
         emptyWorld)))) = None
   \<and> map Stdout (CommandExecutors (Status (fst (fst (runRecovery scenarioEnv scenarioCatalog
         (assign [\<lparr>Namespace = ''default'', Name = ''recoverer2''\<rparr>,
                  \<lparr>Namespace = ''default'', Name = ''recoverer1''\<rparr>] recoveringAbnormal)
         emptyWorld))))) = [''done'']"
proof -
  let ?b = "assign [\<lparr>Namespace = ''default'', Name = ''recoverer2''\<rparr>,
                    \<lparr>Namespace = ''default'', Name = ''recoverer1''\<rparr>] recoveringAbnormal"
  let ?b' = "runEmbedded scenarioEnv ?b"
  have b1: "AssignedRecoverers (Spec ?b) \<noteq> []" by (simp add: assign_def)
  have v1: "validResponse scenarioEnv ?b' recoverer1 = None" by (simp add: scenario_defs)
  have v2: "validResponse scenarioEnv ?b' recoverer2 = None" by (simp add: scenario_defs)
  have b2: "\<forall>r \<in> set scenarioCatalog. assignedMatched r (AssignedRecoverers (Spec ?b)) \<longrightarrow>
              validResponse scenarioEnv ?b' r = None"
    using v1 v2 by (simp add: scenarioCatalog_def assign_def recoverer3_def)
  have e: "Diagnoser (Status ?b') = Some \<lparr>Namespace = ''default'', Name = ''diagnoser1''\<rparr>"
    "Recoverer (Status ?b') = None" "Context (Status ?b') = None"
    "map Stdout (CommandExecutors (Status ?b')) = [''done'']"
    by (simp_all add: scenario_defs)
  from all_dispatches_fail_frame [OF b1 b2, of emptyWorld, unfolded Let_def] b1 v1 v2 e
  show ?thesis by simp
qed

section \<open>The filters of the queue consumer\<close>

lemma SyncAbnormal_acts:
  "updates (snd (SyncAbnormal env a w)) \<noteq> updates w \<or> queued (snd (SyncAbnormal env a w)) \<noteq> queued w"
proof (cases "cacheList env")
  case (Inl err)
  then show ?thesis by (simp add: SyncAbnormal_def)
next
  case (Inr recoverers)
  obtain a' e w' where r: "runRecovery env recoverers a w = ((a', e), w')"
    by (metis surj_pair)
  from runRecovery_terminal [of w env recoverers a] r
  have "updates w' = updates w @ [a']" by (simp add: terminalUpdate_def)
  with Inr r show ?thesis
    by (cases e) (simp_all add: SyncAbnormal_def)
qed

lemma SyncAbnormal_changes: "snd (SyncAbnormal env a w) \<noteq> w"
  using SyncAbnormal_acts [of env a w] by auto

text \<open>
  Claim C4.  For an Abnormal taken from the queue whose live object the store returns, the
  engine acts (calls \<open>SyncAbnormal\<close>, which submits a status update or queues the object
  again) only if the live object's phase is Recovering and the node filter passes, and
  the filter passes exactly when the spec's node name is empty or equals the engine's own
  node name.  An object in any other phase, or bound to another node, is dropped and
  nothing changes: no status update, no request, nothing queued.
\<close>

theorem Run_acts_on_matching_only:
  assumes "clientGet env (ObjName (Meta abnormal), ObjNamespace (Meta abnormal)) = Inr live"
  shows
    "(IsAbnormalNodeNameMatched live (nodeName env)
        \<longleftrightarrow> NodeName (Spec live) = [] \<or> NodeName (Spec live) = nodeName env)
     \<and> (Phase (Status live) = AbnormalRecovering
          \<and> (NodeName (Spec live) = [] \<or> NodeName (Spec live) = nodeName env) \<longrightarrow>
            RunOne env abnormal w = snd (SyncAbnormal env live w)
            \<and> (updates (RunOne env abnormal w) \<noteq> updates w
                 \<or> queued (RunOne env abnormal w) \<noteq> queued w))
     \<and> (Phase (Status live) \<noteq> AbnormalRecovering
          \<or> (NodeName (Spec live) \<noteq> [] \<and> NodeName (Spec live) \<noteq> nodeName env) \<longrightarrow>
            RunOne env abnormal w = w)
     \<and> Run env [abnormal] w = RunOne env abnormal w"
  using assms SyncAbnormal_acts [of env live w]
  by (auto simp: RunOne_def IsAbnormalNodeNameMatched_def)

text \<open>
  The Abnormal of the scenario is in the Recovering phase on node1.  The engine of node1
  marks it succeeded; the engine of node2 drops it; and when the live object is still in
  the Diagnosing phase the engine of node1 drops it too.
\<close>

theorem Run_acts_on_matching_only_witness:
  "clientGet scenarioEnv (ObjName (Meta recoveringAbnormal), ObjNamespace (Meta recoveringAbnormal))
     = Inr recoveringAbnormal
   \<and> Phase (Status recoveringAbnormal) = AbnormalRecovering
   \<and> NodeName (Spec recoveringAbnormal) = nodeName scenarioEnv
   \<and> RunOne scenarioEnv recoveringAbnormal emptyWorld
       = snd (SyncAbnormal scenarioEnv recoveringAbnormal emptyWorld)
   \<and> map (\<lambda>a. Phase (Status a)) (updates (RunOne scenarioEnv recoveringAbnormal emptyWorld))
       = [AbnormalSucceeded]
   \<and> RunOne (scenarioEnv\<lparr>nodeName := ''node2''\<rparr>) recoveringAbnormal emptyWorld = emptyWorld
   \<and> RunOne (scenarioEnv\<lparr>clientGet := (\<lambda>key. Inr
          (recoveringAbnormal\<lparr>Status := (Status recoveringAbnormal)\<lparr>Phase := AbnormalDiagnosing\<rparr>\<rparr>))\<rparr>)
        recoveringAbnormal emptyWorld = emptyWorld"
proof -
  let ?d = "recoveringAbnormal\<lparr>Status := (Status recoveringAbnormal)\<lparr>Phase := AbnormalDiagnosing\<rparr>\<rparr>"
  let ?e2 = "scenarioEnv\<lparr>nodeName := ''node2''\<rparr>"
  let ?e3 = "scenarioEnv\<lparr>clientGet := (\<lambda>key. Inr ?d)\<rparr>"
  have g1: "clientGet scenarioEnv (ObjName (Meta recoveringAbnormal), ObjNamespace (Meta recoveringAbnormal))
     = Inr recoveringAbnormal"
    by (simp add: scenarioEnv_def recoveringAbnormal_def)
  have g2: "clientGet ?e2 (ObjName (Meta recoveringAbnormal), ObjNamespace (Meta recoveringAbnormal))
     = Inr recoveringAbnormal"
    by (simp add: scenarioEnv_def recoveringAbnormal_def)
  have g3: "clientGet ?e3 (ObjName (Meta recoveringAbnormal), ObjNamespace (Meta recoveringAbnormal))
     = Inr ?d"
    by simp
  have p: "Phase (Status recoveringAbnormal) = AbnormalRecovering"
    "NodeName (Spec recoveringAbnormal) = nodeName scenarioEnv"
    "NodeName (Spec recoveringAbnormal) \<noteq> []"
    "NodeName (Spec recoveringAbnormal) \<noteq> nodeName ?e2"
    "Phase (Status ?d) \<noteq> AbnormalRecovering"
    by (simp_all add: recoveringAbnormal_def emptySpec_def emptyStatus_def scenarioEnv_def)
  note t1 = Run_acts_on_matching_only [OF g1, of emptyWorld, THEN conjunct2, THEN conjunct1,
              rule_format, THEN conjunct1]
  have 1: "RunOne scenarioEnv recoveringAbnormal emptyWorld
       = snd (SyncAbnormal scenarioEnv recoveringAbnormal emptyWorld)"
    using p by (intro t1) simp
  note t2 = Run_acts_on_matching_only [OF g2, of emptyWorld, THEN conjunct2, THEN conjunct2,
              THEN conjunct1, rule_format]
  have 2: "RunOne ?e2 recoveringAbnormal emptyWorld = emptyWorld"
    using p by (intro t2) simp
  note t3 = Run_acts_on_matching_only [OF g3, of emptyWorld, THEN conjunct2, THEN conjunct2,
              THEN conjunct1, rule_format]
  have 3: "RunOne ?e3 recoveringAbnormal emptyWorld = emptyWorld"
    using p by (intro t3) simp
  have u: "map (\<lambda>a. Phase (Status a)) (updates (snd (SyncAbnormal scenarioEnv recoveringAbnormal emptyWorld)))
       = [AbnormalSucceeded]"
    by (simp add: SyncAbnormal_def scenario_defs runRecovery_def setAbnormalSucceeded_def
          UpdateAbnormalCondition_def)
  from g1 p(1,2) 1 2 3 u show ?thesis by (simp only:)
qed

section \<open>The context accessor\<close>

lemmas json_defs =
  scenarioJSON_def knownObjects_def bytes_def objectText_def quoted_def withContext_def
  emptyAbnormal_def emptyStatus_def emptySpec_def

text \<open>
  Claim C6.  The context accessor tells its failures apart.  \<open>get\<close> on an Abnormal with
  no context at all fails with the error "abnormal context nil"; \<open>get\<close> on a context
  that is present but empty fails with the different error "abnormal context empty".
  \<open>remove\<close> on a nil or empty context changes nothing and returns success.  \<open>remove\<close>
  (and \<open>get\<close>) on a context whose bytes do not decode fails with the decoder's error
  and leaves the Abnormal, and so the context bytes, as they were.
\<close>

theorem context_failure_modes:
  "(Context (Status a) = None \<longrightarrow>
      GetAbnormalContext json a key = Inl (Error ''abnormal context nil'')
      \<and> RemoveAbnormalContext json a key = (a, True, None))
   \<and> (\<forall>ext. Context (Status a) = Some ext \<and> Raw ext = [] \<longrightarrow>
      GetAbnormalContext json a key = Inl (Error ''abnormal context empty'')
      \<and> RemoveAbnormalContext json a key = (a, True, None))
   \<and> (\<forall>ext err. Context (Status a) = Some ext \<and> Raw ext \<noteq> []
        \<and> Unmarshal json (Raw ext) = Inl err \<longrightarrow>
      RemoveAbnormalContext json a key = (a, False, Some err)
      \<and> Context (Status (fst (RemoveAbnormalContext json a key))) = Some ext
      \<and> GetAbnormalContext json a key = Inl err)
   \<and> Error ''abnormal context nil'' \<noteq> Error ''abnormal context empty''"
  by (simp add: GetAbnormalContext_def RemoveAbnormalContext_def)

text \<open>
  The three contexts of the tests: nil, empty, and the bytes 0, 1, 2, which the JSON
  library of the scenarios does not decode.
\<close>

theorem context_failure_modes_witness:
  "Context (Status (withContext None)) = None
   \<and> GetAbnormalContext scenarioJSON (withContext None) ''key1''
       = Inl (Error ''abnormal context nil'')
   \<and> RemoveAbnormalContext scenarioJSON (withContext None) ''key1'' = (withContext None, True, None)
   \<and> Context (Status (withContext (Some \<lparr>Raw = []\<rparr>))) = Some \<lparr>Raw = []\<rparr>
   \<and> GetAbnormalContext scenarioJSON (withContext (Some \<lparr>Raw = []\<rparr>)) ''key1''
       = Inl (Error ''abnormal context empty'')
   \<and> RemoveAbnormalContext scenarioJSON (withContext (Some \<lparr>Raw = []\<rparr>)) ''key1''
       = (withContext (Some \<lparr>Raw = []\<rparr>), True, None)
   \<and> Unmarshal scenarioJSON [0, 1, 2]
       = Inl (Error ''invalid character looking for beginning of value'')
   \<and> RemoveAbnormalContext scenarioJSON (withContext (Some \<lparr>Raw = [0, 1, 2]\<rparr>)) ''key1''
       = (withContext (Some \<lparr>Raw = [0, 1, 2]\<rparr>), False,
          Some (Error ''invalid character looking for beginning of value''))"
proof -
  have c1: "Context (Status (withContext None)) = None" by (simp add: withContext_def)
  have c2: "Context (Status (withContext (Some \<lparr>Raw = []\<rparr>))) = Some \<lparr>Raw = []\<rparr>
              \<and> Raw \<lparr>Raw = []\<rparr> = []"
    by (simp add: withContext_def)
  have u: "Unmarshal scenarioJSON [0, 1, 2]
       = Inl (Error ''invalid character looking for beginning of value'')"
    by (simp add: json_defs)
  then have c3: "Context (Status (withContext (Some \<lparr>Raw = [0, 1, 2]\<rparr>))) = Some \<lparr>Raw = [0, 1, 2]\<rparr>
              \<and> Raw \<lparr>Raw = [0, 1, 2]\<rparr> \<noteq> []
              \<and> Unmarshal scenarioJSON (Raw \<lparr>Raw = [0, 1, 2]\<rparr>)
                   = Inl (Error ''invalid character looking for beginning of value'')"
    by (simp add: withContext_def)
  note t1 = context_failure_modes [of "withContext None" scenarioJSON "''key1''",
              THEN conjunct1, rule_format, OF c1]
  note t2 = context_failure_modes [of "withContext (Some \<lparr>Raw = []\<rparr>)" scenarioJSON "''key1''",
              THEN conjunct2, THEN conjunct1, rule_format, OF c2]
  note t3 = context_failure_modes [of "withContext (Some \<lparr>Raw = [0, 1, 2]\<rparr>)" scenarioJSON "''key1''",
              THEN conjunct2, THEN conjunct2, THEN conjunct1, rule_format, OF c3, THEN conjunct1]
  from c1 c2 u t1 t2 t3 show ?thesis by (simp only:) 
qed




end
